theory Spec2Isabelle
  imports Complex_Main
begin

text \<open>
  The event log of the back-office backend and its Database Manager: event creation
  (\<open>events/models.py\<close>, \<open>events/services.py\<close>), the event processor with its handlers
  (\<open>database_manager/event_processor.py\<close>) and the batch services
  (\<open>database_manager/services.py\<close>), embedded as functions on an explicit world: the
  \<open>events\<close> table, the outcomes of the datastore requests, and the clock.
\<close>

section \<open>Strings\<close>

text \<open>
  Python strings are modelled as \<^typ>\<open>string\<close>: a list of 8-bit code points, so the
  model covers the code points below 256 (ASCII and Latin-1).  A UUID is carried as its
  canonical text, which is what \<open>str(uuid)\<close> yields; a timestamp is a clock reading in
  seconds.
\<close>

type_synonym uuid = string
type_synonym timestamp = rat

definition str_lower_char :: "char \<Rightarrow> char" where
  "str_lower_char c =
     (let n = (of_char c :: nat)
      in if (65 \<le> n \<and> n \<le> 90) \<or> (192 \<le> n \<and> n \<le> 222 \<and> n \<noteq> 215)
         then char_of (n + 32) else c)"

definition str_lower :: "string \<Rightarrow> string" where
  "str_lower v = map str_lower_char v"

text \<open>\<open>v.split(sep)\<close> for a one-character separator.\<close>

fun str_split :: "char \<Rightarrow> string \<Rightarrow> string list" where
  "str_split sep [] = [[]]"
| "str_split sep (x # xs) =
     (if x = sep then [] # str_split sep xs
      else (case str_split sep xs of
              [] \<Rightarrow> [[x]]
            | p # ps \<Rightarrow> (x # p) # ps))"

definition startswith :: "string \<Rightarrow> string \<Rightarrow> bool" where
  "startswith v p = (take (length p) v = p)"

section \<open>Event creation: the \<open>EventCreate\<close> model\<close>

datatype validation_error =
    StringTooShort
  | StringTooLong
  | ValueError string

text \<open>The \<open>@field_validator('event_type')\<close> of \<open>EventCreate\<close>.\<close>

definition validate_event_type :: "string \<Rightarrow> validation_error + string" where
  "validate_event_type v =
     (if CHR ''.'' \<notin> set v
      then Inl (ValueError ''event_type must follow format: aggregate.action (e.g., product.created)'')
      else let parts = str_split CHR ''.'' v
           in if length parts \<noteq> 2
              then Inl (ValueError ''event_type must have exactly one dot (aggregate.action)'')
              else if \<not> list_all (\<lambda>p. p \<noteq> []) parts
              then Inl (ValueError ''event_type parts cannot be empty'')
              else Inr (str_lower v))"

text \<open>The \<open>@field_validator('aggregate_type')\<close> of \<open>EventCreate\<close>.\<close>

definition validate_aggregate_type :: "string \<Rightarrow> validation_error + string" where
  "validate_aggregate_type v = Inr (str_lower v)"

text \<open>The \<open>@field_validator('created_by')\<close> of \<open>EventCreate\<close>.\<close>

definition validate_created_by :: "string \<Rightarrow> validation_error + string" where
  "validate_created_by v =
     (if \<not> (startswith v ''user:'' \<or> startswith v ''agent:'' \<or> startswith v ''system'')
      then Inl (ValueError ''created_by must start with user:, agent:, or system'')
      else Inr v)"

text \<open>
  A string field declared \<open>Field(..., min_length=lo, max_length=hi)\<close>: the length
  constraints are checked first, the field validator runs on a value that passed them.
\<close>

definition str_field ::
  "nat \<Rightarrow> nat \<Rightarrow> (string \<Rightarrow> validation_error + string) \<Rightarrow> string \<Rightarrow> validation_error + string"
where
  "str_field lo hi validator v =
     (if length v < lo then Inl StringTooShort
      else if hi < length v then Inl StringTooLong
      else validator v)"

definition event_type_field :: "string \<Rightarrow> validation_error + string" where
  "event_type_field = str_field 3 100 validate_event_type"

definition aggregate_type_field :: "string \<Rightarrow> validation_error + string" where
  "aggregate_type_field = str_field 1 50 validate_aggregate_type"

definition created_by_field :: "string \<Rightarrow> validation_error + string" where
  "created_by_field = str_field 1 100 validate_created_by"

section \<open>Payload values\<close>

text \<open>
  The values of an event's \<open>data\<close> and \<open>metadata\<close> dictionaries, as decoded from JSON.
  A float is carried as its Python rendering, the only thing the handlers observe of it.
  A dictionary is the list of its items in insertion order (keys distinct).
\<close>

datatype pyval =
    PNone
  | PBool bool
  | PInt int
  | PFloat string
  | PStr string
  | PList "pyval list"
  | PDict "(string \<times> pyval) list"

type_synonym pydict = "(string \<times> pyval) list"

text \<open>\<open>d.get(k, default)\<close>; \<open>d.get(k)\<close> is \<open>dict_get d k PNone\<close>.\<close>

definition dict_get :: "pydict \<Rightarrow> string \<Rightarrow> pyval \<Rightarrow> pyval" where
  "dict_get d k dflt = (case map_of d k of None \<Rightarrow> dflt | Some v \<Rightarrow> v)"

function nat_str :: "nat \<Rightarrow> string" where
  "nat_str n =
     (if n < 10 then [char_of (48 + n)]
      else nat_str (n div 10) @ [char_of (48 + n mod 10)])"
  by pat_completeness auto
termination
  by (relation "measure id") auto

declare nat_str.simps [simp del]

definition int_str :: "int \<Rightarrow> string" where
  "int_str i = (if i < 0 then CHR ''-'' # nat_str (nat (- i)) else nat_str (nat i))"

definition hex_digit :: "nat \<Rightarrow> char" where
  "hex_digit d = (if d < 10 then char_of (48 + d) else char_of (87 + d))"

definition str_isprintable_char :: "char \<Rightarrow> bool" where
  "str_isprintable_char c =
     (let n = (of_char c :: nat)
      in \<not> (n < 32 \<or> (127 \<le> n \<and> n \<le> 160) \<or> n = 173))"

text \<open>\<open>repr\<close> of a string: quote selection and escapes (\<open>0x27\<close> is the single quote,
  \<open>0x22\<close> the double quote, \<open>0x5C\<close> the backslash).\<close>

definition repr_char :: "char \<Rightarrow> char \<Rightarrow> string" where
  "repr_char quote c =
     (let n = (of_char c :: nat)
      in if c = quote \<or> c = CHR 0x5C then [CHR 0x5C, c]
         else if n = 9 then [CHR 0x5C, CHR ''t'']
         else if n = 10 then [CHR 0x5C, CHR ''n'']
         else if n = 13 then [CHR 0x5C, CHR ''r'']
         else if str_isprintable_char c then [c]
         else [CHR 0x5C, CHR ''x'', hex_digit (n div 16), hex_digit (n mod 16)])"

definition str_repr :: "string \<Rightarrow> string" where
  "str_repr s =
     (let quote = (if CHR 0x27 \<in> set s \<and> CHR 0x22 \<notin> set s then CHR 0x22 else CHR 0x27)
      in quote # concat (map (repr_char quote) s) @ [quote])"

fun str_join :: "string \<Rightarrow> string list \<Rightarrow> string" where
  "str_join sep [] = []"
| "str_join sep [x] = x"
| "str_join sep (x # y # ys) = x @ sep @ str_join sep (y # ys)"

fun py_repr :: "pyval \<Rightarrow> string" where
  "py_repr PNone = ''None''"
| "py_repr (PBool b) = (if b then ''True'' else ''False'')"
| "py_repr (PInt i) = int_str i"
| "py_repr (PFloat s) = s"
| "py_repr (PStr s) = str_repr s"
| "py_repr (PList xs) = ''['' @ str_join '', '' (map py_repr xs) @ '']''"
| "py_repr (PDict kvs) =
     ''{'' @ str_join '', '' (map (\<lambda>(k, v). str_repr k @ '': '' @ py_repr v) kvs) @ ''}''"

text \<open>\<open>str(v)\<close>, which is what an f-string placeholder \<open>{v}\<close> renders.\<close>

definition py_str :: "pyval \<Rightarrow> string" where
  "py_str v = (case v of PStr s \<Rightarrow> s | _ \<Rightarrow> py_repr v)"

section \<open>Exceptions\<close>

text \<open>
  \<open>TypeError\<close> is the built-in one, \<open>HTTPException\<close> the web framework's (status code
  and detail), \<open>APIError\<close> any exception of the datastore client, carried with its
  message.
\<close>

datatype exn =
    TypeError string
  | HTTPException nat string
  | APIError string

text \<open>\<open>str(e)\<close>.  The framework renders an \<open>HTTPException\<close> as \<open>"<status>: <detail>"\<close>.\<close>

fun exn_str :: "exn \<Rightarrow> string" where
  "exn_str (TypeError m) = m"
| "exn_str (HTTPException c d) = nat_str c @ '': '' @ d"
| "exn_str (APIError m) = m"

text \<open>\<open>len(v)\<close>.\<close>

fun py_len :: "pyval \<Rightarrow> exn + nat" where
  "py_len PNone = Inl (TypeError ''object of type 'NoneType' has no len()'')"
| "py_len (PBool b) = Inl (TypeError ''object of type 'bool' has no len()'')"
| "py_len (PInt i) = Inl (TypeError ''object of type 'int' has no len()'')"
| "py_len (PFloat s) = Inl (TypeError ''object of type 'float' has no len()'')"
| "py_len (PStr s) = Inr (length s)"
| "py_len (PList xs) = Inr (length xs)"
| "py_len (PDict kvs) = Inr (length kvs)"

section \<open>The event store\<close>

text \<open>\<open>EventResponse\<close>: a row of the \<open>events\<close> table.\<close>

record event_response =
  ev_id :: uuid
  event_number :: int
  event_type :: string
  aggregate_type :: string
  aggregate_id :: uuid
  data :: pydict
  metadata :: pydict
  created_by :: string
  user_id :: "uuid option"
  created_at :: timestamp
  event_version :: int
  is_processed :: bool
  processed_at :: "timestamp option"
  processing_error :: "string option"
  correlation_id :: "uuid option"
  causation_id :: "uuid option"
  idempotency_key :: "string option"

text \<open>
  Calls that the claims speak of but that leave no mark in the returned values: an entry
  is appended when \<open>process_event\<close> is entered, and when a handler is awaited (with the
  handler's method name).
\<close>

datatype call = ProcessEvent uuid | Handler string uuid

text \<open>
  The world the services run in: the \<open>events\<close> table; the outcomes of the datastore
  requests still to come (\<open>Some m\<close>: the request raises with message \<open>m\<close>; \<open>None\<close>, or an
  exhausted script: it succeeds); the readings the system clock will give (an exhausted
  script reads 0); and the calls made so far.
\<close>

record world =
  events :: "event_response list"
  faults :: "string option list"
  clock :: "timestamp list"
  calls :: "call list"

text \<open>One \<open>.execute()\<close> against the datastore: consumes one scripted outcome.\<close>

definition db_execute :: "world \<Rightarrow> string option \<times> world" where
  "db_execute w =
     (case faults w of
        [] \<Rightarrow> (None, w)
      | f # fs \<Rightarrow> (f, w\<lparr>faults := fs\<rparr>))"

text \<open>\<open>time.time()\<close> and \<open>datetime.utcnow()\<close>: one reading of the clock.  Readings and
  the times computed from them are rationals; the rounding of floating-point arithmetic
  is not modelled.\<close>

definition time_time :: "world \<Rightarrow> timestamp \<times> world" where
  "time_time w =
     (case clock w of
        [] \<Rightarrow> (0, w)
      | t # ts \<Rightarrow> (t, w\<lparr>clock := ts\<rparr>))"

definition record_call :: "call \<Rightarrow> world \<Rightarrow> world" where
  "record_call c w = w\<lparr>calls := calls w @ [c]\<rparr>"

section \<open>Posting an event\<close>

text \<open>The fields of \<open>EventCreate\<close>: a request body, and the model built from it.\<close>

record event_create =
  c_event_type :: string
  c_aggregate_type :: string
  c_aggregate_id :: uuid
  c_data :: pydict
  c_metadata :: "pydict option"
  c_created_by :: string
  c_correlation_id :: "uuid option"
  c_causation_id :: "uuid option"
  c_idempotency_key :: "string option"

definition errors_of :: "validation_error + 'a \<Rightarrow> validation_error list" where
  "errors_of r = (case r of Inl e \<Rightarrow> [e] | Inr _ \<Rightarrow> [])"

definition value_of :: "'a \<Rightarrow> validation_error + 'a \<Rightarrow> 'a" where
  "value_of dflt r = (case r of Inl _ \<Rightarrow> dflt | Inr v \<Rightarrow> v)"

definition idempotency_key_field :: "string option \<Rightarrow> validation_error + string option" where
  "idempotency_key_field k =
     (case k of
        None \<Rightarrow> Inr None
      | Some v \<Rightarrow> (if 255 < length v then Inl StringTooLong else Inr (Some v)))"

text \<open>
  Building an \<open>EventCreate\<close> from a body: every field is validated, the errors of all
  fields are collected in declaration order, and the model exists only when there is
  none.
\<close>

definition EventCreate :: "event_create \<Rightarrow> validation_error list + event_create" where
  "EventCreate body =
     (let v_type = event_type_field (c_event_type body);
          v_aggregate = aggregate_type_field (c_aggregate_type body);
          v_creator = created_by_field (c_created_by body);
          v_key = idempotency_key_field (c_idempotency_key body);
          errs = errors_of v_type @ errors_of v_aggregate @ errors_of v_creator @ errors_of v_key
      in if errs \<noteq> [] then Inl errs
         else Inr (body\<lparr>c_event_type := value_of (c_event_type body) v_type,
                         c_aggregate_type := value_of (c_aggregate_type body) v_aggregate,
                         c_created_by := value_of (c_created_by body) v_creator,
                         c_idempotency_key := value_of (c_idempotency_key body) v_key\<rparr>))"

text \<open>
  Modelled from the spec: the processing columns of a new row, which the table's defaults
  set (\<open>is_processed\<close> false at creation, no \<open>processed_at\<close>, no \<open>processing_error\<close>);
  the table definition is not among the sources.  The other columns the datastore fills
  in on insert (\<open>id\<close>, \<open>event_number\<close>, \<open>created_at\<close>, \<open>event_version\<close>) are the
  parameter \<open>generated\<close>, a function of the rows already stored.  The rest is
  \<open>EventService.post_event\<close>: an insert that does not raise returns the new row, and an
  exception of the insert is raised again as an \<open>HTTPException\<close> with status 500.
\<close>

definition post_event ::
  "(event_response list \<Rightarrow> uuid \<times> int \<times> timestamp \<times> int) \<Rightarrow> world \<Rightarrow> event_create
     \<Rightarrow> uuid option \<Rightarrow> world \<times> (exn + event_response)"
where
  "post_event generated w event_data uid =
     (case db_execute w of
        (Some m, w') \<Rightarrow> (w', Inl (HTTPException 500 (''Failed to post event: '' @ m)))
      | (None, w') \<Rightarrow>
          (let (new_id, number, now, version) = generated (events w');
               row = \<lparr>ev_id = new_id,
                      event_number = number,
                      event_type = c_event_type event_data,
                      aggregate_type = c_aggregate_type event_data,
                      aggregate_id = c_aggregate_id event_data,
                      data = c_data event_data,
                      metadata = (case c_metadata event_data of
                                    None \<Rightarrow> []
                                  | Some m \<Rightarrow> m),
                      created_by = c_created_by event_data,
                      user_id = uid,
                      created_at = now,
                      event_version = version,
                      is_processed = False,
                      processed_at = None,
                      processing_error = None,
                      correlation_id = c_correlation_id event_data,
                      causation_id = c_causation_id event_data,
                      idempotency_key = c_idempotency_key event_data\<rparr>
           in (w'\<lparr>events := events w' @ [row]\<rparr>, Inr row)))"

text \<open>
  The \<open>POST /api/v1/events\<close> route: the framework builds the \<open>EventCreate\<close> from the
  request body and calls the route function only when that succeeds.
\<close>

definition post_event_route ::
  "(event_response list \<Rightarrow> uuid \<times> int \<times> timestamp \<times> int) \<Rightarrow> world \<Rightarrow> event_create
     \<Rightarrow> uuid option \<Rightarrow> world \<times> (validation_error list + (exn + event_response))"
where
  "post_event_route generated w body uid =
     (case EventCreate body of
        Inl errs \<Rightarrow> (w, Inl errs)
      | Inr event_data \<Rightarrow>
          (case post_event generated w event_data uid of
             (w', r) \<Rightarrow> (w', Inr r)))"

section \<open>The event processor\<close>

text \<open>\<open>EventProcessingResult\<close>.\<close>

record event_processing_result =
  r_event_id :: uuid
  r_event_type :: string
  success :: bool
  error :: "string option"
  operations_executed :: "string list"
  processing_time_ms :: rat

text \<open>
  A handler method of \<open>EventProcessor\<close>: it returns the list of operation descriptions
  or raises.  The handlers write log lines and touch nothing else; the log is not
  modelled.  Those that take \<open>len\<close> of a payload value in their log line raise when the
  value has no length, before any operation is appended.
\<close>

type_synonym handler = "event_response \<Rightarrow> exn + string list"

definition handle_product_created :: handler where
  "handle_product_created event =
     Inr [''Logged product creation: '' @ py_str (dict_get (data event) ''sku'' PNone)]"

definition handle_product_updated :: handler where
  "handle_product_updated event =
     (case py_len (dict_get (data event) ''changes'' (PDict [])) of
        Inl e \<Rightarrow> Inl e
      | Inr n \<Rightarrow> Inr [''Logged product update: '' @ aggregate_id event])"

definition handle_product_price_changed :: handler where
  "handle_product_price_changed event = Inr [''Logged price change: '' @ aggregate_id event]"

definition handle_product_stock_updated :: handler where
  "handle_product_stock_updated event = Inr [''Logged stock update: '' @ aggregate_id event]"

definition handle_product_deactivated :: handler where
  "handle_product_deactivated event =
     Inr [''Logged product deactivation: '' @ aggregate_id event]"

definition handle_order_created :: handler where
  "handle_order_created event =
     (case py_len (dict_get (data event) ''items'' (PList [])) of
        Inl e \<Rightarrow> Inl e
      | Inr items_count \<Rightarrow> Inr [''Logged order creation: '' @ aggregate_id event])"

definition handle_order_payment_received :: handler where
  "handle_order_payment_received event = Inr [''Logged payment: '' @ aggregate_id event]"

definition handle_order_status_changed :: handler where
  "handle_order_status_changed event = Inr [''Logged status change: '' @ aggregate_id event]"

definition handle_order_fulfilled :: handler where
  "handle_order_fulfilled event = Inr [''Logged order fulfillment: '' @ aggregate_id event]"

definition handle_order_cancelled :: handler where
  "handle_order_cancelled event = Inr [''Logged order cancellation: '' @ aggregate_id event]"

definition handle_customer_registered :: handler where
  "handle_customer_registered event =
     Inr [''Logged customer registration: '' @ aggregate_id event]"

definition handle_customer_profile_updated :: handler where
  "handle_customer_profile_updated event =
     (case py_len (dict_get (data event) ''changes'' (PDict [])) of
        Inl e \<Rightarrow> Inl e
      | Inr n \<Rightarrow> Inr [''Logged profile update: '' @ aggregate_id event])"

definition handle_dealer_application_submitted :: handler where
  "handle_dealer_application_submitted event =
     Inr [''Logged dealer application: '' @ aggregate_id event]"

definition handle_dealer_approved :: handler where
  "handle_dealer_approved event = Inr [''Logged dealer approval: '' @ aggregate_id event]"

definition handle_dealer_pricing_updated :: handler where
  "handle_dealer_pricing_updated event = Inr [''Logged pricing update: '' @ aggregate_id event]"

definition handle_agent_decision_proposed :: handler where
  "handle_agent_decision_proposed event = Inr [''Logged agent decision: '' @ aggregate_id event]"

definition handle_agent_decision_approved :: handler where
  "handle_agent_decision_approved event =
     Inr [''Logged decision approval: '' @ aggregate_id event]"

definition handle_agent_decision_rejected :: handler where
  "handle_agent_decision_rejected event =
     Inr [''Logged decision rejection: '' @ aggregate_id event]"

text \<open>
  \<open>getattr(self, handler_name, None)\<close> on an \<open>EventProcessor\<close>, for the names
  \<open>process_event\<close> builds (all start with \<open>_handle_\<close>): the handler methods of the class.
\<close>

definition handler_methods :: "(string \<times> handler) list" where
  "handler_methods =
     [(''_handle_product_created'', handle_product_created),
      (''_handle_product_updated'', handle_product_updated),
      (''_handle_product_price_changed'', handle_product_price_changed),
      (''_handle_product_stock_updated'', handle_product_stock_updated),
      (''_handle_product_deactivated'', handle_product_deactivated),
      (''_handle_order_created'', handle_order_created),
      (''_handle_order_payment_received'', handle_order_payment_received),
      (''_handle_order_status_changed'', handle_order_status_changed),
      (''_handle_order_fulfilled'', handle_order_fulfilled),
      (''_handle_order_cancelled'', handle_order_cancelled),
      (''_handle_customer_registered'', handle_customer_registered),
      (''_handle_customer_profile_updated'', handle_customer_profile_updated),
      (''_handle_dealer_application_submitted'', handle_dealer_application_submitted),
      (''_handle_dealer_approved'', handle_dealer_approved),
      (''_handle_dealer_pricing_updated'', handle_dealer_pricing_updated),
      (''_handle_agent_decision_proposed'', handle_agent_decision_proposed),
      (''_handle_agent_decision_approved'', handle_agent_decision_approved),
      (''_handle_agent_decision_rejected'', handle_agent_decision_rejected)]"

definition getattr_handler :: "string \<Rightarrow> handler option" where
  "getattr_handler name = map_of handler_methods name"

text \<open>\<open>v.replace(old, new)\<close> for one-character \<open>old\<close> and \<open>new\<close>.\<close>

definition str_replace :: "char \<Rightarrow> char \<Rightarrow> string \<Rightarrow> string" where
  "str_replace old new v = map (\<lambda>c. if c = old then new else c) v"

definition handler_name :: "event_response \<Rightarrow> string" where
  "handler_name event = ''_handle_'' @ str_replace CHR ''.'' CHR ''_'' (event_type event)"

text \<open>
  \<open>.update(values).eq("id", event_id).execute()\<close> on the \<open>events\<close> table: every row with
  that id gets the values, unless the request raises.
\<close>

definition db_update_by_id ::
  "world \<Rightarrow> uuid \<Rightarrow> (event_response \<Rightarrow> event_response) \<Rightarrow> string option \<times> world"
where
  "db_update_by_id w event_id values =
     (case db_execute w of
        (Some m, w') \<Rightarrow> (Some m, w')
      | (None, w') \<Rightarrow>
          (None, w'\<lparr>events := map (\<lambda>row. if ev_id row = event_id then values row else row)
                                  (events w')\<rparr>))"

text \<open>\<open>_mark_event_processed\<close>: an exception of the update is logged and dropped.\<close>

definition mark_event_processed :: "world \<Rightarrow> uuid \<Rightarrow> world" where
  "mark_event_processed w event_id =
     (let (now, w1) = time_time w
      in snd (db_update_by_id w1 event_id
                (\<lambda>row. row\<lparr>is_processed := True,
                            processed_at := Some now,
                            processing_error := None\<rparr>)))"

text \<open>\<open>_mark_event_error\<close>: an exception of the update is logged and dropped.\<close>

definition mark_event_error :: "world \<Rightarrow> uuid \<Rightarrow> string \<Rightarrow> world" where
  "mark_event_error w event_id err =
     snd (db_update_by_id w event_id
            (\<lambda>row. row\<lparr>is_processed := False, processing_error := Some err\<rparr>))"

text \<open>
  \<open>process_event\<close>.  The three exits of the source are the three result branches below:
  no handler (returned from inside the \<open>try\<close>), the handler returned, the handler raised
  (the \<open>except Exception\<close> clause).
\<close>

definition process_event :: "world \<Rightarrow> event_response \<Rightarrow> world \<times> event_processing_result" where
  "process_event w event =
     (let (start_time, w1) = time_time (record_call (ProcessEvent (ev_id event)) w)
      in case getattr_handler (handler_name event) of
           None \<Rightarrow>
             (let (t, w2) = time_time w1
              in (w2, \<lparr>r_event_id = ev_id event,
                       r_event_type = event_type event,
                       success = False,
                       error = Some (''No handler for event type: '' @ event_type event),
                       operations_executed = [],
                       processing_time_ms = (t - start_time) * 1000\<rparr>))
         | Some handler \<Rightarrow>
             (case handler event of
                Inr ops \<Rightarrow>
                  (let w2 = mark_event_processed
                              (record_call (Handler (handler_name event) (ev_id event)) w1)
                              (ev_id event);
                       (t, w3) = time_time w2
                   in (w3, \<lparr>r_event_id = ev_id event,
                            r_event_type = event_type event,
                            success = True,
                            error = None,
                            operations_executed = [] @ ops,
                            processing_time_ms = (t - start_time) * 1000\<rparr>))
              | Inl e \<Rightarrow>
                  (let w2 = mark_event_error
                              (record_call (Handler (handler_name event) (ev_id event)) w1)
                              (ev_id event) (exn_str e);
                       (t, w3) = time_time w2
                   in (w3, \<lparr>r_event_id = ev_id event,
                            r_event_type = event_type event,
                            success = False,
                            error = Some (exn_str e),
                            operations_executed = [],
                            processing_time_ms = (t - start_time) * 1000\<rparr>))))"

section \<open>The event service\<close>

text \<open>
  \<open>get_unprocessed_events\<close>: the rows with \<open>is_processed = false\<close>, ordered by ascending
  \<open>event_number\<close>, at most \<open>limit\<close> of them.  An exception of the query is raised again as
  an \<open>HTTPException\<close> with status 500.
\<close>

definition get_unprocessed_events :: "world \<Rightarrow> nat \<Rightarrow> world \<times> (exn + event_response list)" where
  "get_unprocessed_events w limit =
     (case db_execute w of
        (Some m, w') \<Rightarrow> (w', Inl (HTTPException 500 (''Failed to get unprocessed events: '' @ m)))
      | (None, w') \<Rightarrow>
          (w', Inr (take limit (sort_key event_number
                                  (filter (\<lambda>row. \<not> is_processed row) (events w'))))))"

text \<open>\<open>get_event_by_id\<close>: status 404 when no row has the id.\<close>

definition get_event_by_id :: "world \<Rightarrow> uuid \<Rightarrow> world \<times> (exn + event_response)" where
  "get_event_by_id w event_id =
     (case db_execute w of
        (Some m, w') \<Rightarrow> (w', Inl (HTTPException 500 (''Failed to get event: '' @ m)))
      | (None, w') \<Rightarrow>
          (case filter (\<lambda>row. ev_id row = event_id) (events w') of
             [] \<Rightarrow> (w', Inl (HTTPException 404 (''Event '' @ event_id @ '' not found'')))
           | row # _ \<Rightarrow> (w', Inr row)))"

text \<open>\<open>EventStreamQuery\<close>.\<close>

record event_stream_query =
  q_event_type :: "string option"
  q_aggregate_type :: "string option"
  q_aggregate_id :: "uuid option"
  q_created_by :: "string option"
  q_correlation_id :: "uuid option"
  q_is_processed :: "bool option"
  q_limit :: nat
  q_offset :: nat

text \<open>A filter written \<open>if query.f: builder.eq(column, query.f)\<close>: an absent or empty value
  does not filter.\<close>

definition eq_if_truthy :: "string option \<Rightarrow> (event_response \<Rightarrow> string option) \<Rightarrow> event_response \<Rightarrow> bool"
where
  "eq_if_truthy q column row =
     (case q of
        None \<Rightarrow> True
      | Some v \<Rightarrow> (if v = [] then True else column row = Some v))"

text \<open>\<open>get_events\<close>: the matching rows, newest first (descending \<open>event_number\<close>), paginated.\<close>

definition get_events :: "world \<Rightarrow> event_stream_query \<Rightarrow> world \<times> (exn + event_response list)" where
  "get_events w query =
     (case db_execute w of
        (Some m, w') \<Rightarrow> (w', Inl (HTTPException 500 (''Failed to query events: '' @ m)))
      | (None, w') \<Rightarrow>
          (w', Inr (take (q_limit query) (drop (q_offset query)
             (rev (sort_key event_number
                (filter (\<lambda>row.
                     eq_if_truthy (q_event_type query) (\<lambda>r. Some (event_type r)) row
                   \<and> eq_if_truthy (q_aggregate_type query) (\<lambda>r. Some (aggregate_type r)) row
                   \<and> eq_if_truthy (q_aggregate_id query) (\<lambda>r. Some (aggregate_id r)) row
                   \<and> eq_if_truthy (q_created_by query) (\<lambda>r. Some (created_by r)) row
                   \<and> eq_if_truthy (q_correlation_id query) correlation_id row
                   \<and> (case q_is_processed query of
                         None \<Rightarrow> True
                       | Some b \<Rightarrow> is_processed row = b))
                   (events w'))))))))"

text \<open>\<open>counts[k] = counts.get(k, 0) + 1\<close> on a dictionary kept as its item list.\<close>

definition count_key :: "(string \<times> int) list \<Rightarrow> string \<Rightarrow> (string \<times> int) list" where
  "count_key counts k =
     (case map_of counts k of
        None \<Rightarrow> counts @ [(k, 1)]
      | Some c \<Rightarrow> map (\<lambda>(k', c'). if k' = k then (k', c' + 1) else (k', c')) counts)"

text \<open>The dictionary \<open>get_event_stats\<close> returns.\<close>

record event_stats =
  total_events :: int
  unprocessed_events :: int
  processed_events :: int
  event_types :: "(string \<times> int) list"
  aggregate_types :: "(string \<times> int) list"

text \<open>\<open>get_event_stats\<close>: three requests (total count, unprocessed count, all rows for the
  breakdowns); an exception of any of them is raised again with status 500.\<close>

definition get_event_stats :: "world \<Rightarrow> world \<times> (exn + event_stats)" where
  "get_event_stats w =
     (case db_execute w of
        (Some m, w1) \<Rightarrow> (w1, Inl (HTTPException 500 (''Failed to get event stats: '' @ m)))
      | (None, w1) \<Rightarrow>
          (let total_count = int (length (events w1))
           in case db_execute w1 of
                (Some m, w2) \<Rightarrow> (w2, Inl (HTTPException 500 (''Failed to get event stats: '' @ m)))
              | (None, w2) \<Rightarrow>
                  (let unprocessed_count =
                         int (length (filter (\<lambda>row. \<not> is_processed row) (events w2)))
                   in case db_execute w2 of
                        (Some m, w3) \<Rightarrow>
                          (w3, Inl (HTTPException 500 (''Failed to get event stats: '' @ m)))
                      | (None, w3) \<Rightarrow>
                          (w3, Inr \<lparr>total_events = total_count,
                                    unprocessed_events = unprocessed_count,
                                    processed_events = total_count - unprocessed_count,
                                    event_types =
                                      foldl count_key [] (map event_type (events w3)),
                                    aggregate_types =
                                      foldl count_key [] (map aggregate_type (events w3))\<rparr>))))"

section \<open>The Database Manager service\<close>

text \<open>\<open>BatchProcessingResult\<close>.\<close>

record batch_processing_result =
  b_total_events :: int
  successful :: int
  failed :: int
  b_processing_time_ms :: rat
  results :: "event_processing_result list"

text \<open>The \<open>for event in events\<close> loop of \<open>process_pending_events\<close>, on the loop variables
  \<open>results\<close>, \<open>successful\<close> and \<open>failed\<close>.\<close>

fun process_each ::
  "world \<Rightarrow> event_response list \<Rightarrow> event_processing_result list \<Rightarrow> int \<Rightarrow> int
     \<Rightarrow> world \<times> event_processing_result list \<times> int \<times> int"
where
  "process_each w [] rs s f = (w, rs, s, f)"
| "process_each w (event # rest) rs s f =
     (let (w', result) = process_event w event
      in if success result
         then process_each w' rest (rs @ [result]) (s + 1) f
         else process_each w' rest (rs @ [result]) s (f + 1))"

text \<open>\<open>process_pending_events\<close> (the spec's \<open>run_batch\<close>).  The outer \<open>except\<close> logs and
  raises again, so an exception of the fetch reaches the caller.\<close>

definition process_pending_events :: "world \<Rightarrow> nat \<Rightarrow> world \<times> (exn + batch_processing_result)" where
  "process_pending_events w limit =
     (let (start_time, w1) = time_time w
      in case get_unprocessed_events w1 limit of
           (w2, Inl e) \<Rightarrow> (w2, Inl e)
         | (w2, Inr evs) \<Rightarrow>
             (if evs = []
              then (w2, Inr \<lparr>b_total_events = 0, successful = 0, failed = 0,
                             b_processing_time_ms = 0, results = []\<rparr>)
              else (let (w3, rs, s, f) = process_each w2 evs [] 0 0;
                        (t, w4) = time_time w3
                    in (w4, Inr \<lparr>b_total_events = int (length evs),
                                  successful = s,
                                  failed = f,
                                  b_processing_time_ms = (t - start_time) * 1000,
                                  results = rs\<rparr>))))"

text \<open>The \<open>for event_id in event_ids\<close> loop of \<open>process_specific_events\<close>.  The inner
  \<open>except Exception\<close> turns a failed lookup into a failure result of type \<open>unknown\<close>.\<close>

fun process_ids ::
  "bool \<Rightarrow> world \<Rightarrow> uuid list \<Rightarrow> event_processing_result list \<Rightarrow> int \<Rightarrow> int
     \<Rightarrow> world \<times> event_processing_result list \<times> int \<times> int"
where
  "process_ids force_reprocess w [] rs s f = (w, rs, s, f)"
| "process_ids force_reprocess w (event_id # rest) rs s f =
     (case get_event_by_id w event_id of
        (w1, Inl e) \<Rightarrow>
          process_ids force_reprocess w1 rest
            (rs @ [\<lparr>r_event_id = event_id,
                     r_event_type = ''unknown'',
                     success = False,
                     error = Some (exn_str e),
                     operations_executed = [],
                     processing_time_ms = 0\<rparr>])
            s (f + 1)
      | (w1, Inr event) \<Rightarrow>
          (if is_processed event \<and> \<not> force_reprocess
           then process_ids force_reprocess w1 rest rs s f
           else (let (w2, result) = process_event w1 event
                 in if success result
                    then process_ids force_reprocess w2 rest (rs @ [result]) (s + 1) f
                    else process_ids force_reprocess w2 rest (rs @ [result]) s (f + 1))))"

text \<open>\<open>process_specific_events\<close> (the spec's \<open>run_specific\<close>).\<close>

definition process_specific_events ::
  "world \<Rightarrow> uuid list \<Rightarrow> bool \<Rightarrow> world \<times> batch_processing_result"
where
  "process_specific_events w event_ids force_reprocess =
     (let (start_time, w1) = time_time w;
          (w2, rs, s, f) = process_ids force_reprocess w1 event_ids [] 0 0;
          (t, w3) = time_time w2
      in (w3, \<lparr>b_total_events = int (length event_ids),
               successful = s,
               failed = f,
               b_processing_time_ms = (t - start_time) * 1000,
               results = rs\<rparr>))"

text \<open>\<open>DatabaseManagerStats\<close>.\<close>

record database_manager_stats =
  total_events_processed :: int
  events_pending :: int
  events_failed :: int
  success_rate :: rat
  average_processing_time_ms :: rat
  last_processed_at :: "timestamp option"
  event_type_breakdown :: "(string \<times> int) list"

text \<open>\<open>get_stats\<close>.\<close>

definition get_stats :: "world \<Rightarrow> world \<times> (exn + database_manager_stats)" where
  "get_stats w =
     (case get_event_stats w of
        (w1, Inl e) \<Rightarrow> (w1, Inl e)
      | (w1, Inr stats) \<Rightarrow>
          (let total_processed = processed_events stats;
               total = total_events stats;
               rate = (if total > 0 then of_int total_processed / of_int total * 100 else 0)
           in case get_events w1 \<lparr>q_event_type = None, q_aggregate_type = None,
                                   q_aggregate_id = None, q_created_by = None,
                                   q_correlation_id = None, q_is_processed = Some True,
                                   q_limit = 1, q_offset = 0\<rparr> of
                (w2, Inl e) \<Rightarrow> (w2, Inl e)
              | (w2, Inr recent_processed) \<Rightarrow>
                  (w2, Inr \<lparr>total_events_processed = total_processed,
                            events_pending = unprocessed_events stats,
                            events_failed = 0,
                            success_rate = rate,
                            average_processing_time_ms = 0,
                            last_processed_at =
                              (case recent_processed of
                                 [] \<Rightarrow> None
                               | row # _ \<Rightarrow> processed_at row),
                            event_type_breakdown = event_types stats\<rparr>)))"

section \<open>Conditions stated by the specification\<close>

text \<open>
  The specification's wording for an acceptable \<open>event_type\<close>: exactly one dot, with a
  non-empty part before it and a non-empty part after it.
\<close>

definition spec_event_type_ok :: "string \<Rightarrow> bool" where
  "spec_event_type_ok v =
     (count_list v CHR ''.'' = 1
      \<and> takeWhile (\<lambda>c. c \<noteq> CHR ''.'') v \<noteq> []
      \<and> tl (dropWhile (\<lambda>c. c \<noteq> CHR ''.'') v) \<noteq> [])"

text \<open>The specification's wording for an acceptable \<open>created_by\<close>: it starts with
  \<open>user:\<close>, \<open>agent:\<close> or \<open>system\<close>.\<close>

definition spec_created_by_ok :: "string \<Rightarrow> bool" where
  "spec_created_by_ok v =
     (take 5 v = ''user:'' \<or> take 6 v = ''agent:'' \<or> take 6 v = ''system'')"

section \<open>Observations used in the statements\<close>

text \<open>The \<open>n\<close>-th reading the clock will give next (0 when the script is exhausted).\<close>

definition reading :: "nat \<Rightarrow> world \<Rightarrow> timestamp" where
  "reading n w = (if n < length (clock w) then clock w ! n else 0)"

text \<open>The next datastore request succeeds.\<close>

definition request_ok :: "world \<Rightarrow> bool" where
  "request_ok w = (case faults w of Some m # _ \<Rightarrow> False | _ \<Rightarrow> True)"

text \<open>The values \<open>_mark_event_processed\<close> and \<open>_mark_event_error\<close> write to a row, and
  an update of the rows with a given id.\<close>

definition mark_processed_row :: "timestamp \<Rightarrow> event_response \<Rightarrow> event_response" where
  "mark_processed_row now row =
     row\<lparr>is_processed := True, processed_at := Some now, processing_error := None\<rparr>"

definition mark_failed_row :: "string \<Rightarrow> event_response \<Rightarrow> event_response" where
  "mark_failed_row err row = row\<lparr>is_processed := False, processing_error := Some err\<rparr>"

definition update_rows ::
  "uuid \<Rightarrow> (event_response \<Rightarrow> event_response) \<Rightarrow> event_response list \<Rightarrow> event_response list"
where
  "update_rows i f rows = map (\<lambda>row. if ev_id row = i then f row else row) rows"

text \<open>What the handler that \<open>process_event\<close> resolves for an event does on it: \<open>None\<close>
  when no handler is found, else the handler's outcome.\<close>

definition run_handler :: "event_response \<Rightarrow> (exn + string list) option" where
  "run_handler e =
     (case getattr_handler (handler_name e) of
        None \<Rightarrow> None
      | Some handler \<Rightarrow> Some (handler e))"

text \<open>The ids of the events \<open>process_event\<close> was entered for, and of those a handler was
  awaited for, in the order of the calls.\<close>

definition dispatched :: "world \<Rightarrow> uuid list" where
  "dispatched w = concat (map (\<lambda>c. case c of ProcessEvent i \<Rightarrow> [i] | Handler n i \<Rightarrow> []) (calls w))"

definition handled :: "world \<Rightarrow> uuid list" where
  "handled w = concat (map (\<lambda>c. case c of ProcessEvent i \<Rightarrow> [] | Handler n i \<Rightarrow> [i]) (calls w))"

text \<open>The page of pending events a fetch with the given limit returns.\<close>

definition pending_page :: "world \<Rightarrow> nat \<Rightarrow> event_response list" where
  "pending_page w limit =
     take limit (sort_key event_number (filter (\<lambda>row. \<not> is_processed row) (events w)))"

text \<open>The stored rows with a given id.\<close>

definition rows_with_id :: "uuid \<Rightarrow> world \<Rightarrow> event_response list" where
  "rows_with_id i w = filter (\<lambda>row. ev_id row = i) (events w)"

text \<open>The rows of the store that are pending.\<close>

definition pending :: "world \<Rightarrow> event_response list" where
  "pending w = filter (\<lambda>row. \<not> is_processed row) (events w)"

section \<open>Example events\<close>

text \<open>A stored, unprocessed event as \<open>post_event\<close> creates it, and the events of the
  specification's scenarios.\<close>

definition stored_event :: "uuid \<Rightarrow> int \<Rightarrow> string \<Rightarrow> string \<Rightarrow> uuid \<Rightarrow> pydict \<Rightarrow> event_response" where
  "stored_event i n etype atype aid d =
     \<lparr>ev_id = i, event_number = n, event_type = etype, aggregate_type = atype,
      aggregate_id = aid, data = d, metadata = [], created_by = ''system'',
      user_id = None, created_at = 0, event_version = 1, is_processed = False,
      processed_at = None, processing_error = None, correlation_id = None,
      causation_id = None, idempotency_key = None\<rparr>"

definition pump_event :: event_response where
  "pump_event =
     stored_event ''e-1'' 1 ''product.created'' ''product'' ''p-1'' [(''sku'', PStr ''PUMP-001'')]"

definition cancel_event :: event_response where
  "cancel_event =
     stored_event ''e-2'' 2 ''order.cancelled'' ''order'' ''o-1''
       [(''reason'', PStr ''customer request''), (''refund_amount'', PInt 500)]"

definition sparkle_event :: event_response where
  "sparkle_event = stored_event ''e-3'' 3 ''widget.sparkled'' ''widget'' ''w-1'' []"

text \<open>A \<open>product.updated\<close> event whose \<open>changes\<close> is a number, which has no \<open>len\<close>.\<close>

definition bad_update_event :: event_response where
  "bad_update_event =
     stored_event ''e-4'' 4 ''product.updated'' ''product'' ''p-1'' [(''changes'', PInt 5)]"

text \<open>A world with the given rows, no scripted fault and three clock readings.\<close>

definition store_of :: "event_response list \<Rightarrow> world" where
  "store_of rows = \<lparr>events = rows, faults = [], clock = [100, 101, 103], calls = []\<rparr>"

text \<open>The same, with a fault scripted for the next datastore request.\<close>

definition failing_store_of :: "event_response list \<Rightarrow> world" where
  "failing_store_of rows =
     \<lparr>events = rows, faults = [Some ''connection reset''], clock = [100, 101, 103], calls = []\<rparr>"



text \<open>The \<open>product.created\<close> event of the scenario, stored as already processed.\<close>

definition processed_pump_event :: event_response where
  "processed_pump_event =
     pump_event\<lparr>is_processed := True, processed_at := Some 50\<rparr>"

section \<open>Properties of event creation\<close>

lemma str_split_nonempty: "str_split sep v \<noteq> []"
  by (induction v) (auto split: list.splits)

lemma length_str_split: "length (str_split sep v) = Suc (count_list v sep)"
proof (induction v)
  case Nil
  show ?case by simp
next
  case (Cons x xs)
  then show ?case
    using str_split_nonempty [of sep xs] by (auto split: list.splits)
qed

lemma str_split_no_sep: "sep \<notin> set v \<Longrightarrow> str_split sep v = [v]"
  by (induction v) auto

lemma str_split_first:
  "sep \<in> set v \<Longrightarrow>
     str_split sep v =
       takeWhile (\<lambda>c. c \<noteq> sep) v # str_split sep (tl (dropWhile (\<lambda>c. c \<noteq> sep) v))"
  by (induction v) (auto simp: str_split_no_sep split: list.splits)

lemma count_list_tl_dropWhile:
  "sep \<in> set v \<Longrightarrow>
     count_list v sep = Suc (count_list (tl (dropWhile (\<lambda>c. c \<noteq> sep) v)) sep)"
  by (induction v) auto

lemma validate_event_type_iff:
  "(\<exists>r. validate_event_type v = Inr r) = spec_event_type_ok v"
proof (cases "CHR ''.'' \<in> set v")
  case False
  then have "count_list v CHR ''.'' = 0" by (simp add: count_list_0_iff)
  with False show ?thesis
    by (simp add: validate_event_type_def spec_event_type_ok_def)
next
  case True
  let ?b = "tl (dropWhile (\<lambda>c. c \<noteq> CHR ''.'') v)"
  let ?a = "takeWhile (\<lambda>c. c \<noteq> CHR ''.'') v"
  have split: "str_split CHR ''.'' v = ?a # str_split CHR ''.'' ?b"
    using True by (rule str_split_first)
  have cnt: "count_list v CHR ''.'' = Suc (count_list ?b CHR ''.'')"
    using True by (rule count_list_tl_dropWhile)
  show ?thesis
  proof (cases "count_list ?b CHR ''.'' = 0")
    case True
    then have "CHR ''.'' \<notin> set ?b" by (simp add: count_list_0_iff)
    then have "str_split CHR ''.'' v = [?a, ?b]"
      using split by (simp add: str_split_no_sep)
    then show ?thesis
      using \<open>CHR ''.'' \<in> set v\<close> cnt True
      by (simp add: validate_event_type_def spec_event_type_ok_def Let_def)
  next
    case False
    then have "length (str_split CHR ''.'' v) \<noteq> 2"
      by (simp add: length_str_split cnt)
    then show ?thesis
      using \<open>CHR ''.'' \<in> set v\<close> cnt False
      by (simp add: validate_event_type_def spec_event_type_ok_def Let_def)
  qed
qed

lemma validate_event_type_value: "validate_event_type v = Inr r \<Longrightarrow> r = str_lower v"
  by (auto simp: validate_event_type_def Let_def split: if_splits)

lemma spec_event_type_min_length: "spec_event_type_ok v \<Longrightarrow> 3 \<le> length v"
proof -
  assume a: "spec_event_type_ok v"
  let ?P = "\<lambda>c. c \<noteq> CHR ''.''"
  from a have t: "takeWhile ?P v \<noteq> []" and d: "tl (dropWhile ?P v) \<noteq> []"
    by (simp_all add: spec_event_type_ok_def)
  from d obtain x xs where xs: "dropWhile ?P v = x # xs" "xs \<noteq> []"
    by (cases "dropWhile ?P v") auto
  have "length v = length (takeWhile ?P v) + length (dropWhile ?P v)"
    by (metis length_append takeWhile_dropWhile_id)
  moreover have "1 \<le> length (takeWhile ?P v)"
    using t by (cases "takeWhile ?P v") auto
  moreover have "2 \<le> length (dropWhile ?P v)"
    using xs by (cases xs) auto
  ultimately show ?thesis by linarith
qed

lemma event_type_field_iff:
  "(\<exists>r. event_type_field v = Inr r) = (spec_event_type_ok v \<and> length v \<le> 100)"
  using spec_event_type_min_length [of v] validate_event_type_iff [of v]
  by (auto simp: event_type_field_def str_field_def)

lemma event_type_field_value: "event_type_field v = Inr r \<Longrightarrow> r = str_lower v"
  by (auto simp: event_type_field_def str_field_def validate_event_type_value
           split: if_splits)

lemma startswith_take:
  "startswith v ''user:'' = (take 5 v = ''user:'')"
  "startswith v ''agent:'' = (take 6 v = ''agent:'')"
  "startswith v ''system'' = (take 6 v = ''system'')"
  by (simp_all add: startswith_def eval_nat_numeral)

lemma spec_created_by_nonempty: "spec_created_by_ok v \<Longrightarrow> v \<noteq> []"
  by (auto simp: spec_created_by_ok_def)

lemma created_by_field_iff:
  "(\<exists>r. created_by_field v = Inr r) = (spec_created_by_ok v \<and> length v \<le> 100)"
proof (cases "spec_created_by_ok v")
  case True
  then have "validate_created_by v = Inr v"
    by (simp add: validate_created_by_def startswith_take spec_created_by_ok_def)
  moreover have "\<not> length v < 1"
    using spec_created_by_nonempty [OF True] by simp
  ultimately show ?thesis
    using True by (auto simp only: created_by_field_def str_field_def split: if_splits)
next
  case False
  then have "\<exists>e. validate_created_by v = Inl e"
    by (simp add: validate_created_by_def startswith_take spec_created_by_ok_def)
  then show ?thesis
    using False by (auto simp only: created_by_field_def str_field_def split: if_splits)
qed

lemma created_by_field_value: "created_by_field v = Inr r \<Longrightarrow> r = v"
  by (auto simp: created_by_field_def str_field_def validate_created_by_def split: if_splits)

lemma field_too_long:
  "100 < length v \<Longrightarrow> event_type_field v = Inl StringTooLong"
  "100 < length v \<Longrightarrow> created_by_field v = Inl StringTooLong"
  by (auto simp: event_type_field_def created_by_field_def str_field_def)

lemma EventCreate_rejects:
  assumes "(\<exists>e. event_type_field (c_event_type body) = Inl e)
           \<or> (\<exists>e. created_by_field (c_created_by body) = Inl e)"
  shows "\<exists>errs. errs \<noteq> [] \<and> EventCreate body = Inl errs"
  using assms by (auto simp: EventCreate_def Let_def errors_of_def)

lemma post_event_route_rejects:
  "EventCreate body = Inl errs \<Longrightarrow> post_event_route generated w body uid = (w, Inl errs)"
  by (simp add: post_event_route_def)

text \<open>
  C9, as the specification states it, fails: a value of the form \<open>aggregate.action\<close>
  with one dot and two non-empty parts is rejected when it is longer than 100
  characters (\<open>max_length=100\<close> of the field).  Here: 99 times \<open>a\<close>, then \<open>.b\<close>.
\<close>

theorem event_type_accept_counterexample:
  "spec_event_type_ok (replicate 99 CHR ''a'' @ ''.b'')
   \<and> event_type_field (replicate 99 CHR ''a'' @ ''.b'') = Inl StringTooLong"
  by code_simp

text \<open>
  C9 (amended): event creation validates its input and rejects invalid events without
  storing them.  An \<open>event_type\<close> of at most 100 characters is accepted if and only if
  it has exactly one dot separating two non-empty parts, and an accepted value is
  normalised to lowercase; a \<open>created_by\<close> of at most 100 characters is accepted if and
  only if it starts with \<open>user:\<close>, \<open>agent:\<close> or \<open>system\<close>, and is kept as it is; a longer
  value of either field is rejected.  A body whose \<open>event_type\<close> or \<open>created_by\<close> is
  rejected yields validation errors from the route and leaves the store as it was.
\<close>

theorem event_creation_validation:
  "(length v \<le> 100 \<longrightarrow> ((\<exists>r. event_type_field v = Inr r) \<longleftrightarrow> spec_event_type_ok v))
   \<and> (event_type_field v = Inr r \<longrightarrow> r = str_lower v)
   \<and> (100 < length v' \<longrightarrow> event_type_field v' = Inl StringTooLong)
   \<and> (length c \<le> 100 \<longrightarrow> ((\<exists>r. created_by_field c = Inr r) \<longleftrightarrow> spec_created_by_ok c))
   \<and> (created_by_field c = Inr r' \<longrightarrow> r' = c)
   \<and> (100 < length c' \<longrightarrow> created_by_field c' = Inl StringTooLong)
   \<and> ((\<exists>e. event_type_field (c_event_type body) = Inl e)
        \<or> (\<exists>e. created_by_field (c_created_by body) = Inl e)
       \<longrightarrow> (\<exists>errs. errs \<noteq> []
              \<and> post_event_route generated w body uid = (w, Inl errs)))"
proof -
  have "(\<exists>e. event_type_field (c_event_type body) = Inl e)
        \<or> (\<exists>e. created_by_field (c_created_by body) = Inl e)
       \<Longrightarrow> \<exists>errs. errs \<noteq> [] \<and> post_event_route generated w body uid = (w, Inl errs)"
    using EventCreate_rejects [of body] post_event_route_rejects by blast
  then show ?thesis
    using event_type_field_iff [of v] created_by_field_iff [of c]
          event_type_field_value [of v r] created_by_field_value [of c r']
          field_too_long(1) [of v'] field_too_long(2) [of c']
    by blast
qed

theorem event_creation_validation_witness:
  "length ''Product.Created'' \<le> 100
   \<and> spec_event_type_ok ''Product.Created''
   \<and> event_type_field ''Product.Created'' = Inr ''product.created''
   \<and> 100 < length (replicate 101 CHR ''x'')
   \<and> event_type_field (replicate 101 CHR ''x'') = Inl StringTooLong
   \<and> length ''agent:pricing'' \<le> 100
   \<and> spec_created_by_ok ''agent:pricing''
   \<and> created_by_field ''agent:pricing'' = Inr ''agent:pricing''
   \<and> 100 < length (replicate 101 CHR ''y'')
   \<and> created_by_field (replicate 101 CHR ''y'') = Inl StringTooLong
   \<and> event_type_field ''created'' = Inl (ValueError
         ''event_type must follow format: aggregate.action (e.g., product.created)'')
   \<and> (\<exists>errs. errs \<noteq> []
         \<and> post_event_route (\<lambda>rows. (''id-1'', 1, 0, 1))
              \<lparr>events = [], faults = [], clock = [], calls = []\<rparr>
              \<lparr>c_event_type = ''created'', c_aggregate_type = ''product'',
               c_aggregate_id = ''p-1'', c_data = [], c_metadata = None,
               c_created_by = ''system'', c_correlation_id = None,
               c_causation_id = None, c_idempotency_key = None\<rparr> None
            = (\<lparr>events = [], faults = [], clock = [], calls = []\<rparr>, Inl errs))"
proof -
  have a: "spec_event_type_ok ''Product.Created''" by code_simp
  have b: "event_type_field ''Product.Created'' = Inr ''product.created''" by code_simp
  have c: "spec_created_by_ok ''agent:pricing''" by code_simp
  have d: "created_by_field ''agent:pricing'' = Inr ''agent:pricing''" by code_simp
  have e: "event_type_field ''created'' = Inl (ValueError
         ''event_type must follow format: aggregate.action (e.g., product.created)'')"
    by code_simp
  show ?thesis
    using a b c d e
      event_creation_validation [of "''Product.Created''" "''product.created''"
        "replicate 101 CHR ''x''" "''agent:pricing''" "''agent:pricing''"
        "replicate 101 CHR ''y''"
        "\<lparr>c_event_type = ''created'', c_aggregate_type = ''product'',
               c_aggregate_id = ''p-1'', c_data = [], c_metadata = None,
               c_created_by = ''system'', c_correlation_id = None,
               c_causation_id = None, c_idempotency_key = None\<rparr>"
        "\<lambda>rows. (''id-1'', 1, 0, 1)"
        "\<lparr>events = [], faults = [], clock = [], calls = []\<rparr>" None]
    by simp
qed

section \<open>Properties of the clock, the datastore and the status tracker\<close>

lemma time_time_fst: "fst (time_time w) = reading 0 w"
  by (simp add: time_time_def reading_def split: list.splits)

lemma time_time_fields [simp]:
  "events (snd (time_time w)) = events w"
  "faults (snd (time_time w)) = faults w"
  "calls (snd (time_time w)) = calls w"
  by (simp_all add: time_time_def split: list.splits)

lemma reading_time_time [simp]: "reading n (snd (time_time w)) = reading (Suc n) w"
  by (auto simp: time_time_def reading_def split: list.splits)

lemma record_call_fields [simp]:
  "events (record_call c w) = events w"
  "faults (record_call c w) = faults w"
  "clock (record_call c w) = clock w"
  "calls (record_call c w) = calls w @ [c]"
  by (simp_all add: record_call_def)

lemma reading_record_call [simp]: "reading n (record_call c w) = reading n w"
  by (simp add: reading_def)

lemma request_ok_simps [simp]:
  "request_ok (record_call c w) = request_ok w"
  "request_ok (snd (time_time w)) = request_ok w"
  by (simp_all add: request_ok_def)

lemma db_update_by_id_fields [simp]:
  "clock (snd (db_update_by_id w i f)) = clock w"
  "calls (snd (db_update_by_id w i f)) = calls w"
  "faults (snd (db_update_by_id w i f)) = tl (faults w)"
  by (simp_all add: db_update_by_id_def db_execute_def split: list.splits option.splits)

lemma db_update_by_id_events:
  "events (snd (db_update_by_id w i f)) =
     (if request_ok w then map (\<lambda>row. if ev_id row = i then f row else row) (events w)
      else events w)"
  by (simp add: db_update_by_id_def db_execute_def request_ok_def split: list.splits option.splits)

lemma reading_db_update [simp]: "reading n (snd (db_update_by_id w i f)) = reading n w"
  by (simp add: reading_def)

lemma mark_event_processed_events:
  "events (mark_event_processed w i) =
     (if request_ok w
      then update_rows i (mark_processed_row (reading 0 w)) (events w)
      else events w)"
  by (simp add: mark_event_processed_def case_prod_beta db_update_by_id_events time_time_fst
        update_rows_def mark_processed_row_def)

lemma mark_event_processed_fields [simp]:
  "calls (mark_event_processed w i) = calls w"
  "faults (mark_event_processed w i) = tl (faults w)"
  "reading n (mark_event_processed w i) = reading (Suc n) w"
  by (simp_all add: mark_event_processed_def case_prod_beta)

lemma mark_event_error_events:
  "events (mark_event_error w i err) =
     (if request_ok w
      then update_rows i (mark_failed_row err) (events w)
      else events w)"
  by (simp add: mark_event_error_def db_update_by_id_events update_rows_def mark_failed_row_def)

lemma mark_event_error_fields [simp]:
  "calls (mark_event_error w i err) = calls w"
  "faults (mark_event_error w i err) = tl (faults w)"
  "reading n (mark_event_error w i err) = reading n w"
  by (simp_all add: mark_event_error_def)

section \<open>Properties of \<open>process_event\<close>\<close>

lemma process_event_no_handler:
  assumes "getattr_handler (handler_name e) = None"
  shows "snd (process_event w e) =
           \<lparr>r_event_id = ev_id e, r_event_type = event_type e, success = False,
            error = Some (''No handler for event type: '' @ event_type e),
            operations_executed = [],
            processing_time_ms = (reading 1 w - reading 0 w) * 1000\<rparr>"
    and "events (fst (process_event w e)) = events w"
    and "faults (fst (process_event w e)) = faults w"
    and "calls (fst (process_event w e)) = calls w @ [ProcessEvent (ev_id e)]"
    and "reading n (fst (process_event w e)) = reading (n + 2) w"
  using assms by (simp_all add: process_event_def case_prod_beta time_time_fst)

lemma process_event_handled:
  assumes "getattr_handler (handler_name e) = Some h" and "h e = Inr ops"
  shows "snd (process_event w e) =
           \<lparr>r_event_id = ev_id e, r_event_type = event_type e, success = True,
            error = None, operations_executed = ops,
            processing_time_ms = (reading 2 w - reading 0 w) * 1000\<rparr>"
    and "events (fst (process_event w e)) =
           (if request_ok w
            then update_rows (ev_id e) (mark_processed_row (reading 1 w)) (events w)
            else events w)"
    and "faults (fst (process_event w e)) = tl (faults w)"
    and "calls (fst (process_event w e)) =
           calls w @ [ProcessEvent (ev_id e), Handler (handler_name e) (ev_id e)]"
    and "reading n (fst (process_event w e)) = reading (n + 3) w"
  using assms
  by (simp_all add: process_event_def case_prod_beta time_time_fst Let_def
        mark_event_processed_events eval_nat_numeral)

lemma process_event_raised:
  assumes "getattr_handler (handler_name e) = Some h" and "h e = Inl ex"
  shows "snd (process_event w e) =
           \<lparr>r_event_id = ev_id e, r_event_type = event_type e, success = False,
            error = Some (exn_str ex), operations_executed = [],
            processing_time_ms = (reading 1 w - reading 0 w) * 1000\<rparr>"
    and "events (fst (process_event w e)) =
           (if request_ok w
            then update_rows (ev_id e) (mark_failed_row (exn_str ex)) (events w)
            else events w)"
    and "faults (fst (process_event w e)) = tl (faults w)"
    and "calls (fst (process_event w e)) =
           calls w @ [ProcessEvent (ev_id e), Handler (handler_name e) (ev_id e)]"
    and "reading n (fst (process_event w e)) = reading (n + 2) w"
  using assms
  by (simp_all add: process_event_def case_prod_beta time_time_fst Let_def
        mark_event_error_events)

lemma run_handler_cases:
  "run_handler e = None \<longleftrightarrow> getattr_handler (handler_name e) = None"
  "run_handler e = Some r \<longleftrightarrow> (\<exists>h. getattr_handler (handler_name e) = Some h \<and> h e = r)"
  by (auto simp: run_handler_def split: option.splits)

text \<open>
  C1: for every event whose handler is found and returns normally, \<open>process_event\<close>
  returns a success result carrying the handler's operation descriptions and the elapsed
  time (the difference of the clock readings at exit and at entry, in milliseconds), and
  calls the status tracker, which marks the event's row processed when its request goes
  through.  In particular a \<open>product.created\<close> event with data \<open>{"sku": "PUMP-001"}\<close>
  yields \<open>success = True\<close> and \<open>operations_executed = ["Logged product creation: PUMP-001"]\<close>
  and the stored event's \<open>is_processed\<close> goes from false to true.
\<close>

theorem process_event_success:
  "(run_handler e = Some (Inr ops) \<longrightarrow>
      snd (process_event w e) =
        \<lparr>r_event_id = ev_id e, r_event_type = event_type e, success = True,
         error = None, operations_executed = ops,
         processing_time_ms = (reading 2 w - reading 0 w) * 1000\<rparr>
      \<and> calls (fst (process_event w e)) =
          calls w @ [ProcessEvent (ev_id e), Handler (handler_name e) (ev_id e)]
      \<and> (request_ok w \<longrightarrow>
           events (fst (process_event w e)) =
             update_rows (ev_id e) (mark_processed_row (reading 1 w)) (events w)))
   \<and> run_handler pump_event = Some (Inr [''Logged product creation: PUMP-001''])
   \<and> success (snd (process_event (store_of [pump_event]) pump_event))
   \<and> operations_executed (snd (process_event (store_of [pump_event]) pump_event)) =
       [''Logged product creation: PUMP-001'']
   \<and> map is_processed (events (store_of [pump_event])) = [False]
   \<and> map is_processed (events (fst (process_event (store_of [pump_event]) pump_event))) = [True]"
proof -
  have general: "run_handler e = Some (Inr ops) \<Longrightarrow>
      snd (process_event w e) =
        \<lparr>r_event_id = ev_id e, r_event_type = event_type e, success = True,
         error = None, operations_executed = ops,
         processing_time_ms = (reading 2 w - reading 0 w) * 1000\<rparr>
      \<and> calls (fst (process_event w e)) =
          calls w @ [ProcessEvent (ev_id e), Handler (handler_name e) (ev_id e)]
      \<and> (request_ok w \<longrightarrow>
           events (fst (process_event w e)) =
             update_rows (ev_id e) (mark_processed_row (reading 1 w)) (events w))"
    for e ops w
    by (auto simp: run_handler_cases process_event_handled)
  have pump: "run_handler pump_event = Some (Inr [''Logged product creation: PUMP-001''])"
    by (simp add: run_handler_def pump_event_def stored_event_def handler_name_def
          str_replace_def getattr_handler_def handler_methods_def
          handle_product_created_def dict_get_def py_str_def)
  have ok: "request_ok (store_of [pump_event])"
    by (simp add: request_ok_def store_of_def)
  from general [OF pump, of "store_of [pump_event]"] ok
  have "success (snd (process_event (store_of [pump_event]) pump_event))"
    and "operations_executed (snd (process_event (store_of [pump_event]) pump_event)) =
       [''Logged product creation: PUMP-001'']"
    and "map is_processed (events (fst (process_event (store_of [pump_event]) pump_event))) = [True]"
    by (simp_all add: update_rows_def mark_processed_row_def store_of_def)
  moreover have "map is_processed (events (store_of [pump_event])) = [False]"
    by (simp add: store_of_def pump_event_def stored_event_def)
  ultimately show ?thesis using general pump by blast
qed

lemma run_handler_cancel:
  "run_handler cancel_event = Some (Inr [''Logged order cancellation: o-1''])"
  by (simp add: run_handler_def cancel_event_def stored_event_def handler_name_def
        str_replace_def getattr_handler_def handler_methods_def handle_order_cancelled_def)


lemma run_handler_bad_update:
  "run_handler bad_update_event = Some (Inl (TypeError ''object of type 'int' has no len()''))"
  by (simp add: run_handler_def bad_update_event_def stored_event_def handler_name_def
        str_replace_def getattr_handler_def handler_methods_def handle_product_updated_def
        dict_get_def)

lemma request_ok_store_of: "request_ok (store_of rows)"
  by (simp add: request_ok_def store_of_def)

text \<open>Witness for C1: the \<open>order.cancelled\<close> scenario of the specification.\<close>

theorem process_event_success_witness:
  "run_handler cancel_event = Some (Inr [''Logged order cancellation: o-1''])
   \<and> request_ok (store_of [cancel_event])
   \<and> snd (process_event (store_of [cancel_event]) cancel_event) =
        \<lparr>r_event_id = ''e-2'', r_event_type = ''order.cancelled'', success = True,
         error = None, operations_executed = [''Logged order cancellation: o-1''],
         processing_time_ms = 3000\<rparr>
   \<and> calls (fst (process_event (store_of [cancel_event]) cancel_event)) =
        [ProcessEvent ''e-2'', Handler ''_handle_order_cancelled'' ''e-2'']
   \<and> map is_processed (events (fst (process_event (store_of [cancel_event]) cancel_event))) = [True]
   \<and> map processed_at (events (fst (process_event (store_of [cancel_event]) cancel_event))) = [Some 101]"
  using process_event_success [of cancel_event "[''Logged order cancellation: o-1'']"
          "store_of [cancel_event]"]
        run_handler_cancel request_ok_store_of [of "[cancel_event]"]
  by (simp add: update_rows_def mark_processed_row_def store_of_def reading_def
        cancel_event_def stored_event_def handler_name_def str_replace_def)

text \<open>
  The handler is resolved through the method name built from the event type, with the
  dot replaced by an underscore: \<open>product_price.changed\<close> resolves to the handler of
  \<open>product.price_changed\<close>.
\<close>

lemma handler_resolved_by_method_name:
  "handler_name (stored_event i n ''product_price.changed'' a aid d) =
     handler_name (stored_event i n ''product.price_changed'' a aid d)"
  "run_handler (stored_event i n ''product_price.changed'' ''product'' aid d) =
     Some (Inr [''Logged price change: '' @ aid])"
  by (simp_all add: run_handler_def stored_event_def handler_name_def str_replace_def
        getattr_handler_def handler_methods_def handle_product_price_changed_def)




text \<open>
  C3: for every event whose handler raises, \<open>process_event\<close> returns a failure result
  whose error is the exception's message, and calls the status tracker, which writes
  \<open>is_processed = False\<close> and that message onto the event's rows (replacing any earlier
  \<open>processing_error\<close>) when its request goes through, so the event stays unprocessed.
  \<open>process_event\<close> yields a result on every input: the exception does not escape.
\<close>

theorem process_event_handler_exception:
  "run_handler e = Some (Inl ex) \<longrightarrow>
      snd (process_event w e) =
        \<lparr>r_event_id = ev_id e, r_event_type = event_type e, success = False,
         error = Some (exn_str ex), operations_executed = [],
         processing_time_ms = (reading 1 w - reading 0 w) * 1000\<rparr>
      \<and> calls (fst (process_event w e)) =
          calls w @ [ProcessEvent (ev_id e), Handler (handler_name e) (ev_id e)]
      \<and> (request_ok w \<longrightarrow>
           events (fst (process_event w e)) =
             update_rows (ev_id e) (mark_failed_row (exn_str ex)) (events w)
           \<and> (\<forall>row \<in> set (events (fst (process_event w e))).
                 ev_id row = ev_id e \<longrightarrow>
                   \<not> is_processed row \<and> processing_error row = Some (exn_str ex)))"
  by (auto simp: run_handler_cases process_event_raised update_rows_def mark_failed_row_def)

text \<open>Witness for C3: a \<open>product.updated\<close> event whose \<open>changes\<close> is the number 5,
  stored with an earlier error.\<close>

theorem process_event_handler_exception_witness:
  "run_handler bad_update_event = Some (Inl (TypeError ''object of type 'int' has no len()''))
   \<and> request_ok (store_of [bad_update_event\<lparr>processing_error := Some ''earlier failure''\<rparr>])
   \<and> snd (process_event (store_of [bad_update_event\<lparr>processing_error := Some ''earlier failure''\<rparr>])
             bad_update_event) =
        \<lparr>r_event_id = ''e-4'', r_event_type = ''product.updated'', success = False,
         error = Some ''object of type 'int' has no len()'', operations_executed = [],
         processing_time_ms = 1000\<rparr>
   \<and> map (\<lambda>row. (is_processed row, processing_error row))
        (events (fst (process_event
           (store_of [bad_update_event\<lparr>processing_error := Some ''earlier failure''\<rparr>])
           bad_update_event))) =
        [(False, Some ''object of type 'int' has no len()'')]"
  using process_event_handler_exception [of bad_update_event
          "TypeError ''object of type 'int' has no len()''"
          "store_of [bad_update_event\<lparr>processing_error := Some ''earlier failure''\<rparr>]"]
        run_handler_bad_update
        request_ok_store_of [of "[bad_update_event\<lparr>processing_error := Some ''earlier failure''\<rparr>]"]
  by (simp add: update_rows_def mark_failed_row_def store_of_def reading_def
        bad_update_event_def stored_event_def)

section \<open>Properties of the status tracker\<close>

lemma not_request_ok_failing: "\<not> request_ok (failing_store_of rows)"
  by (simp add: request_ok_def failing_store_of_def)

lemma map_processed_at_update_failed:
  "map processed_at (update_rows i (mark_failed_row err) rows) = map processed_at rows"
  by (induction rows) (auto simp: update_rows_def mark_failed_row_def)

text \<open>
  C6: \<open>mark_processed\<close> (\<open>_mark_event_processed\<close>) sets \<open>is_processed = True\<close>,
  \<open>processed_at\<close> to the current clock reading and \<open>processing_error\<close> to null on the
  rows with the given id; \<open>mark_failed\<close> (\<open>_mark_event_error\<close>) sets
  \<open>is_processed = False\<close> and \<open>processing_error\<close> to the error and leaves every
  \<open>processed_at\<close> as it was.  Neither raises: when the datastore request fails the
  rows stay as they were, and \<open>process_event\<close> still returns the result it computed
  (success with the handler's operations, or failure with the handler's error).
\<close>

theorem status_tracker_contract:
  "(request_ok w \<longrightarrow>
      events (mark_event_processed w i) =
        update_rows i (mark_processed_row (reading 0 w)) (events w)
      \<and> events (mark_event_error w i err) = update_rows i (mark_failed_row err) (events w))
   \<and> map processed_at (events (mark_event_error w i err)) = map processed_at (events w)
   \<and> (\<not> request_ok w2 \<longrightarrow>
        events (mark_event_processed w2 i) = events w2
        \<and> events (mark_event_error w2 i err) = events w2
        \<and> (run_handler e = Some (Inr ops) \<longrightarrow>
              success (snd (process_event w2 e))
              \<and> operations_executed (snd (process_event w2 e)) = ops
              \<and> events (fst (process_event w2 e)) = events w2)
        \<and> (run_handler e' = Some (Inl ex) \<longrightarrow>
              \<not> success (snd (process_event w2 e'))
              \<and> error (snd (process_event w2 e')) = Some (exn_str ex)
              \<and> events (fst (process_event w2 e')) = events w2))"
  by (auto simp: mark_event_processed_events mark_event_error_events
        map_processed_at_update_failed run_handler_cases
        process_event_handled process_event_raised)

text \<open>Witness for C6: a store whose request goes through, and one whose request fails.\<close>

theorem status_tracker_contract_witness:
  "request_ok (store_of [pump_event\<lparr>processed_at := Some 7\<rparr>])
   \<and> events (mark_event_processed (store_of [pump_event\<lparr>processed_at := Some 7\<rparr>]) ''e-1'') =
       [pump_event\<lparr>is_processed := True, processed_at := Some 100, processing_error := None\<rparr>]
   \<and> events (mark_event_error (store_of [pump_event\<lparr>processed_at := Some 7\<rparr>]) ''e-1'' ''boom'') =
       [pump_event\<lparr>processed_at := Some 7, is_processed := False, processing_error := Some ''boom''\<rparr>]
   \<and> \<not> request_ok (failing_store_of [pump_event, bad_update_event])
   \<and> events (mark_event_processed (failing_store_of [pump_event, bad_update_event]) ''e-1'') =
       [pump_event, bad_update_event]
   \<and> events (mark_event_error (failing_store_of [pump_event, bad_update_event]) ''e-1'' ''boom'') =
       [pump_event, bad_update_event]
   \<and> run_handler pump_event = Some (Inr [''Logged product creation: PUMP-001''])
   \<and> success (snd (process_event (failing_store_of [pump_event, bad_update_event]) pump_event))
   \<and> events (fst (process_event (failing_store_of [pump_event, bad_update_event]) pump_event)) =
       [pump_event, bad_update_event]
   \<and> is_processed pump_event = False
   \<and> run_handler bad_update_event =
       Some (Inl (TypeError ''object of type 'int' has no len()''))
   \<and> \<not> success (snd (process_event (failing_store_of [pump_event, bad_update_event])
                        bad_update_event))
   \<and> events (fst (process_event (failing_store_of [pump_event, bad_update_event])
                        bad_update_event)) =
       [pump_event, bad_update_event]"
proof -
  have pump: "run_handler pump_event = Some (Inr [''Logged product creation: PUMP-001''])"
    by (simp add: run_handler_def pump_event_def stored_event_def handler_name_def
          str_replace_def getattr_handler_def handler_methods_def
          handle_product_created_def dict_get_def py_str_def)
  show ?thesis
    using status_tracker_contract
            [of "store_of [pump_event\<lparr>processed_at := Some 7\<rparr>]" "''e-1''" "''boom''"
                "failing_store_of [pump_event, bad_update_event]" pump_event
                "[''Logged product creation: PUMP-001'']" bad_update_event
                "TypeError ''object of type 'int' has no len()''"]
          pump run_handler_bad_update request_ok_store_of not_request_ok_failing
    by (simp add: update_rows_def mark_processed_row_def mark_failed_row_def store_of_def
          failing_store_of_def reading_def pump_event_def stored_event_def)
qed

section \<open>Properties of the batch runner\<close>

lemma run_handler_split:
  obtains (none) "getattr_handler (handler_name e) = None"
  | (returned) h ops where "getattr_handler (handler_name e) = Some h" "h e = Inr ops"
  | (raised) h ex where "getattr_handler (handler_name e) = Some h" "h e = Inl ex"
proof (cases "getattr_handler (handler_name e)")
  case None
  then show ?thesis by (rule none)
next
  case (Some h)
  then show ?thesis by (cases "h e") (auto intro: returned raised)
qed

lemma process_event_result_id [simp]: "r_event_id (snd (process_event w e)) = ev_id e"
  by (cases e rule: run_handler_split)
     (simp_all add: process_event_no_handler process_event_handled process_event_raised)

lemma process_event_dispatched [simp]:
  "dispatched (fst (process_event w e)) = dispatched w @ [ev_id e]"
  by (cases e rule: run_handler_split)
     (simp_all add: dispatched_def process_event_no_handler process_event_handled
        process_event_raised)

lemma process_event_handled_ids [simp]:
  "handled (fst (process_event w e)) =
     handled w @ (if run_handler e = None then [] else [ev_id e])"
  by (cases e rule: run_handler_split)
     (simp_all add: handled_def run_handler_def process_event_no_handler
        process_event_handled process_event_raised)


lemma db_execute_fields [simp]:
  "events (snd (db_execute w)) = events w"
  "calls (snd (db_execute w)) = calls w"
  "clock (snd (db_execute w)) = clock w"
  "faults (snd (db_execute w)) = tl (faults w)"
  by (simp_all add: db_execute_def split: list.splits)

lemma db_execute_fst: "(fst (db_execute w) = None) = request_ok w"
  by (simp add: db_execute_def request_ok_def split: list.splits option.splits)

lemma get_unprocessed_events_world [simp]:
  "events (fst (get_unprocessed_events w limit)) = events w"
  "calls (fst (get_unprocessed_events w limit)) = calls w"
  "clock (fst (get_unprocessed_events w limit)) = clock w"
  "faults (fst (get_unprocessed_events w limit)) = tl (faults w)"
  by (simp_all add: get_unprocessed_events_def db_execute_def split: list.splits option.splits)

lemma get_unprocessed_events_result:
  "request_ok w \<Longrightarrow> snd (get_unprocessed_events w limit) = Inr (pending_page w limit)"
  "\<not> request_ok w \<Longrightarrow> \<exists>ex. snd (get_unprocessed_events w limit) = Inl ex"
  by (auto simp: get_unprocessed_events_def db_execute_def request_ok_def pending_page_def
           split: list.splits option.splits)

lemma dispatched_fields [simp]:
  "dispatched (snd (time_time w)) = dispatched w"
  "dispatched (fst (get_unprocessed_events w limit)) = dispatched w"
  "handled (snd (time_time w)) = handled w"
  "handled (fst (get_unprocessed_events w limit)) = handled w"
  by (simp_all add: dispatched_def handled_def)

lemma request_ok_pending_page [simp]:
  "pending_page (snd (time_time w)) limit = pending_page w limit"
  by (simp add: pending_page_def)





lemma pending_page_store_of:
  "pending_page (store_of rows) limit =
     take limit (sort_key event_number (filter (\<lambda>row. \<not> is_processed row) rows))"
  "pending_page (failing_store_of rows) limit =
     take limit (sort_key event_number (filter (\<lambda>row. \<not> is_processed row) rows))"
  by (simp_all add: pending_page_def store_of_def failing_store_of_def)

lemma example_event_fields [simp]:
  "is_processed (stored_event i n t a aid d) = False"
  "event_number (stored_event i n t a aid d) = n"
  "ev_id (stored_event i n t a aid d) = i"
  by (simp_all add: stored_event_def)


lemma dispatched_store_of [simp]:
  "dispatched (store_of rows) = []" "handled (store_of rows) = []"
  "dispatched (failing_store_of rows) = []" "handled (failing_store_of rows) = []"
  by (simp_all add: dispatched_def handled_def store_of_def failing_store_of_def)


lemma run_handler_pump:
  "run_handler pump_event = Some (Inr [''Logged product creation: PUMP-001''])"
  by (simp add: run_handler_def pump_event_def stored_event_def handler_name_def
        str_replace_def getattr_handler_def handler_methods_def
        handle_product_created_def dict_get_def py_str_def)


section \<open>Properties of \<open>process_specific_events\<close>\<close>

lemma get_event_by_id_world [simp]:
  "events (fst (get_event_by_id w i)) = events w"
  "calls (fst (get_event_by_id w i)) = calls w"
  "clock (fst (get_event_by_id w i)) = clock w"
  "faults (fst (get_event_by_id w i)) = tl (faults w)"
  by (simp_all add: get_event_by_id_def db_execute_def split: list.splits option.splits)

lemma get_event_by_id_result:
  "request_ok w \<Longrightarrow>
     snd (get_event_by_id w i) =
       (case rows_with_id i w of
          [] \<Rightarrow> Inl (HTTPException 404 (''Event '' @ i @ '' not found''))
        | row # _ \<Rightarrow> Inr row)"
  by (auto simp: get_event_by_id_def db_execute_def request_ok_def rows_with_id_def
           split: list.splits option.splits)

lemma get_event_by_id_fault:
  "\<not> request_ok w \<Longrightarrow> \<exists>ex. snd (get_event_by_id w i) = Inl ex"
  by (auto simp: get_event_by_id_def db_execute_def request_ok_def
           split: list.splits option.splits)

lemma get_event_by_id_found:
  assumes "snd (get_event_by_id w i) = Inr ev"
  shows "request_ok w" and "\<exists>rest. rows_with_id i w = ev # rest"
    and "ev_id ev = i" and "ev \<in> set (events w)"
proof -
  show ok: "request_ok w"
    using assms get_event_by_id_fault [of w i] by auto
  from get_event_by_id_result [OF ok, of i] assms
  show rows: "\<exists>rest. rows_with_id i w = ev # rest"
    by (cases "rows_with_id i w") auto
  then have "ev \<in> set (rows_with_id i w)" by auto
  then show "ev_id ev = i" and "ev \<in> set (events w)"
    by (simp_all add: rows_with_id_def)
qed

lemma dispatched_get_event_by_id [simp]:
  "dispatched (fst (get_event_by_id w i)) = dispatched w"
  "handled (fst (get_event_by_id w i)) = handled w"
  by (simp_all add: dispatched_def handled_def)

lemma process_ids_counts:
  "process_ids force w ids rs s f = (w', rs', s', f') \<Longrightarrow>
     \<exists>new. rs' = rs @ new
       \<and> s' = s + int (length (filter success new))
       \<and> f' = f + int (length (filter (\<lambda>r. \<not> success r) new))
       \<and> length new \<le> length ids"
proof (induction ids arbitrary: w rs s f)
  case Nil
  then show ?case by simp
next
  case (Cons i ids)
  let ?w1 = "fst (get_event_by_id w i)"
  show ?case
  proof (cases "snd (get_event_by_id w i)")
    case (Inl e)
    let ?r = "\<lparr>r_event_id = i, r_event_type = ''unknown'', success = False,
               error = Some (exn_str e), operations_executed = [], processing_time_ms = 0\<rparr>"
    from Cons.prems Inl have "process_ids force ?w1 ids (rs @ [?r]) s (f + 1) = (w', rs', s', f')"
      by (simp add: case_prod_beta split: prod.splits)
    from Cons.IH [OF this] obtain new where
      "rs' = (rs @ [?r]) @ new" "s' = s + int (length (filter success new))"
      "f' = (f + 1) + int (length (filter (\<lambda>r. \<not> success r) new))" "length new \<le> length ids"
      by blast
    then show ?thesis by (intro exI [of _ "?r # new"]) simp
  next
    case (Inr ev)
    show ?thesis
    proof (cases "is_processed ev \<and> \<not> force")
      case True
      with Cons.prems Inr have "process_ids force ?w1 ids rs s f = (w', rs', s', f')"
        by (simp add: case_prod_beta split: prod.splits)
      from Cons.IH [OF this] show ?thesis by auto
    next
      case False
      let ?w2 = "fst (process_event ?w1 ev)" and ?r = "snd (process_event ?w1 ev)"
      show ?thesis
      proof (cases "success ?r")
        case True
        with Cons.prems Inr False
        have "process_ids force ?w2 ids (rs @ [?r]) (s + 1) f = (w', rs', s', f')"
          by (simp add: case_prod_beta split: prod.splits)
        from Cons.IH [OF this] obtain new where
          "rs' = (rs @ [?r]) @ new" "s' = (s + 1) + int (length (filter success new))"
          "f' = f + int (length (filter (\<lambda>r. \<not> success r) new))" "length new \<le> length ids"
          by blast
        with True show ?thesis by (intro exI [of _ "?r # new"]) simp
      next
        case nosucc: False
        with Cons.prems Inr False
        have "process_ids force ?w2 ids (rs @ [?r]) s (f + 1) = (w', rs', s', f')"
          by (simp add: case_prod_beta split: prod.splits)
        from Cons.IH [OF this] obtain new where
          "rs' = (rs @ [?r]) @ new" "s' = s + int (length (filter success new))"
          "f' = (f + 1) + int (length (filter (\<lambda>r. \<not> success r) new))" "length new \<le> length ids"
          by blast
        with nosucc show ?thesis by (intro exI [of _ "?r # new"]) simp
      qed
    qed
  qed
qed

lemma process_specific_events_result:
  "\<exists>rs s f. snd (process_specific_events w ids force) =
       \<lparr>b_total_events = int (length ids), successful = s, failed = f,
        b_processing_time_ms =
          (fst (time_time (fst (process_ids force (snd (time_time w)) ids [] 0 0)))
             - fst (time_time w)) * 1000,
        results = rs\<rparr>
     \<and> process_ids force (snd (time_time w)) ids [] 0 0 =
         (fst (process_ids force (snd (time_time w)) ids [] 0 0), rs, s, f)"
  by (simp add: process_specific_events_def case_prod_beta)

lemma filter_update_rows_other:
  assumes "i \<noteq> j" and "\<And>row. ev_id (g row) = ev_id row"
  shows "filter (\<lambda>row. ev_id row = i) (update_rows j g rows) =
         filter (\<lambda>row. ev_id row = i) rows"
  using assms by (induction rows) (auto simp: update_rows_def)

lemma process_event_other_rows:
  assumes "ev_id e \<noteq> i"
  shows "rows_with_id i (fst (process_event w e)) = rows_with_id i w"
  using assms
  by (cases e rule: run_handler_split)
     (simp_all add: rows_with_id_def process_event_no_handler process_event_handled
        process_event_raised filter_update_rows_other mark_processed_row_def
        mark_failed_row_def)

lemma process_event_faults_nil:
  "faults w = [] \<Longrightarrow> faults (fst (process_event w e)) = []"
  by (cases e rule: run_handler_split)
     (simp_all add: process_event_no_handler process_event_handled process_event_raised)

lemma request_ok_no_faults: "faults w = [] \<Longrightarrow> request_ok w"
  by (simp add: request_ok_def)

lemma rows_with_id_get_event_by_id [simp]:
  "rows_with_id i (fst (get_event_by_id w j)) = rows_with_id i w"
  by (simp add: rows_with_id_def)

lemma process_ids_skips:
  assumes "process_ids False w ids rs s f = (w', rs', s', f')"
    and "faults w = []" and "rows_with_id i w = row # others" and "is_processed row"
  shows "\<exists>new d. rs' = rs @ new \<and> i \<notin> r_event_id ` set new
           \<and> dispatched w' = dispatched w @ d \<and> i \<notin> set d
           \<and> rows_with_id i w' = rows_with_id i w \<and> faults w' = []"
  using assms
proof (induction ids arbitrary: w rs s f)
  case Nil
  then show ?case by simp
next
  case (Cons j ids)
  let ?w1 = "fst (get_event_by_id w j)"
  have ok: "request_ok w" using Cons.prems(2) by (rule request_ok_no_faults)
  have w1: "faults ?w1 = []" "rows_with_id i ?w1 = row # others"
    using Cons.prems(2,3) by simp_all
  show ?case
  proof (cases "snd (get_event_by_id w j)")
    case (Inl e)
    have "j \<noteq> i"
      using Inl get_event_by_id_result [OF ok, of i] Cons.prems(3) by auto
    let ?r = "\<lparr>r_event_id = j, r_event_type = ''unknown'', success = False,
               error = Some (exn_str e), operations_executed = [], processing_time_ms = 0\<rparr>"
    from Cons.prems(1) Inl
    have "process_ids False ?w1 ids (rs @ [?r]) s (f + 1) = (w', rs', s', f')"
      by (simp add: case_prod_beta split: prod.splits)
    from Cons.IH [OF this w1 Cons.prems(4)] obtain new d where
      "rs' = (rs @ [?r]) @ new" "i \<notin> r_event_id ` set new"
      "dispatched w' = dispatched ?w1 @ d" "i \<notin> set d"
      "rows_with_id i w' = rows_with_id i ?w1" "faults w' = []"
      by blast
    with \<open>j \<noteq> i\<close> show ?thesis
      by (intro exI [of _ "?r # new"] exI [of _ d]) auto
  next
    case (Inr ev)
    note found = get_event_by_id_found [OF Inr]
    show ?thesis
    proof (cases "is_processed ev")
      case True
      with Cons.prems(1) Inr
      have "process_ids False ?w1 ids rs s f = (w', rs', s', f')"
        by (simp add: case_prod_beta split: prod.splits)
      from Cons.IH [OF this w1 Cons.prems(4)] show ?thesis by simp
    next
      case False
      have "j \<noteq> i"
        using False found(2) Cons.prems(3,4) by auto
      let ?w2 = "fst (process_event ?w1 ev)" and ?r = "snd (process_event ?w1 ev)"
      have w2: "faults ?w2 = []" "rows_with_id i ?w2 = row # others"
        using w1 \<open>j \<noteq> i\<close> found(3)
        by (simp_all add: process_event_faults_nil process_event_other_rows)
      have "process_ids False ?w2 ids (rs @ [?r]) (if success ?r then s + 1 else s)
              (if success ?r then f else f + 1) = (w', rs', s', f')"
        using Cons.prems(1) Inr False
        by (auto simp: case_prod_beta split: prod.splits if_splits)
      from Cons.IH [OF this w2 Cons.prems(4)] obtain new d where
        "rs' = (rs @ [?r]) @ new" "i \<notin> r_event_id ` set new"
        "dispatched w' = dispatched ?w2 @ d" "i \<notin> set d"
        "rows_with_id i w' = rows_with_id i ?w2" "faults w' = []"
        by blast
      with \<open>j \<noteq> i\<close> found(3) w1 w2 show ?thesis
        by (intro exI [of _ "?r # new"] exI [of _ "j # d"]) auto
    qed
  qed
qed

lemma process_specific_events_fields:
  "snd (process_specific_events w ids force) =
     \<lparr>b_total_events = int (length ids),
      successful = fst (snd (snd (process_ids force (snd (time_time w)) ids [] 0 0))),
      failed = snd (snd (snd (process_ids force (snd (time_time w)) ids [] 0 0))),
      b_processing_time_ms =
        (fst (time_time (fst (process_ids force (snd (time_time w)) ids [] 0 0)))
           - fst (time_time w)) * 1000,
      results = fst (snd (process_ids force (snd (time_time w)) ids [] 0 0))\<rparr>"
  "events (fst (process_specific_events w ids force)) =
     events (fst (process_ids force (snd (time_time w)) ids [] 0 0))"
  "dispatched (fst (process_specific_events w ids force)) =
     dispatched (fst (process_ids force (snd (time_time w)) ids [] 0 0))"
  by (simp_all add: process_specific_events_def case_prod_beta dispatched_def)

lemma process_ids_skip_step:
  assumes "snd (get_event_by_id w i) = Inr ev" and "is_processed ev"
  shows "process_ids False w (i # rest) rs s f =
           process_ids False (fst (get_event_by_id w i)) rest rs s f"
  using assms by (simp add: case_prod_beta)

text \<open>
  C5: when \<open>process_specific_events\<close> (\<open>run_specific\<close>) runs with
  \<open>force_reprocess = False\<close> and the event loaded for an id has \<open>is_processed = True\<close>,
  the iteration for that id does nothing but the lookup: the loop goes on with the same
  results and counters, the stored rows are as before and \<open>process_event\<close> is not
  entered.  Over a whole run without datastore faults, an id whose stored event is
  processed gets no entry in the results, is never dispatched, and its stored rows are
  left as they were.
\<close>

theorem process_specific_events_skips:
  "(snd (get_event_by_id w i) = Inr ev \<and> is_processed ev \<longrightarrow>
      process_ids False w (i # rest) rs s f =
        process_ids False (fst (get_event_by_id w i)) rest rs s f
      \<and> events (fst (get_event_by_id w i)) = events w
      \<and> dispatched (fst (get_event_by_id w i)) = dispatched w)
   \<and> (faults w = [] \<and> rows_with_id i w = row # others \<and> is_processed row \<longrightarrow>
        i \<notin> r_event_id ` set (results (snd (process_specific_events w ids False)))
        \<and> (\<exists>d. dispatched (fst (process_specific_events w ids False)) = dispatched w @ d
               \<and> i \<notin> set d)
        \<and> rows_with_id i (fst (process_specific_events w ids False)) = rows_with_id i w)"
proof (intro conjI impI)
  assume "snd (get_event_by_id w i) = Inr ev \<and> is_processed ev"
  then show "process_ids False w (i # rest) rs s f =
        process_ids False (fst (get_event_by_id w i)) rest rs s f"
    using process_ids_skip_step by blast
next
  show "events (fst (get_event_by_id w i)) = events w" by simp
next
  show "dispatched (fst (get_event_by_id w i)) = dispatched w" by simp
next
  assume a: "faults w = [] \<and> rows_with_id i w = row # others \<and> is_processed row"
  let ?w1 = "snd (time_time w)"
  obtain w2 rs' s' f' where run: "process_ids False ?w1 ids [] 0 0 = (w2, rs', s', f')"
    by (metis prod_cases4)
  from a have "faults ?w1 = []" "rows_with_id i ?w1 = row # others" "is_processed row"
    by (simp_all add: rows_with_id_def)
  from process_ids_skips [OF run this] obtain d where d:
    "i \<notin> r_event_id ` set rs'" "dispatched w2 = dispatched ?w1 @ d" "i \<notin> set d"
    "rows_with_id i w2 = rows_with_id i ?w1"
    by auto
  show "i \<notin> r_event_id ` set (results (snd (process_specific_events w ids False)))"
    using d(1) run by (simp add: process_specific_events_fields)
  show "\<exists>d. dispatched (fst (process_specific_events w ids False)) = dispatched w @ d
               \<and> i \<notin> set d"
    using d(2,3) run by (simp add: process_specific_events_fields)
  show "rows_with_id i (fst (process_specific_events w ids False)) = rows_with_id i w"
    using d(4) run by (simp add: process_specific_events_fields rows_with_id_def)
qed

lemma events_store_of [simp]:
  "events (store_of rows) = rows" "faults (store_of rows) = []"
  by (simp_all add: store_of_def)

text \<open>Witness for C5: the processed \<open>product.created\<close> event and a pending
  \<open>order.cancelled\<close> event, both requested.\<close>

theorem process_specific_events_skips_witness:
  "snd (get_event_by_id (store_of [processed_pump_event, cancel_event]) ''e-1'') =
     Inr processed_pump_event
   \<and> is_processed processed_pump_event
   \<and> faults (store_of [processed_pump_event, cancel_event]) = []
   \<and> rows_with_id ''e-1'' (store_of [processed_pump_event, cancel_event]) =
       [processed_pump_event]
   \<and> ''e-1'' \<notin> r_event_id ` set (results (snd (process_specific_events
         (store_of [processed_pump_event, cancel_event]) [''e-1'', ''e-2''] False)))
   \<and> (\<exists>d. dispatched (fst (process_specific_events
               (store_of [processed_pump_event, cancel_event]) [''e-1'', ''e-2''] False)) = d
          \<and> ''e-1'' \<notin> set d)
   \<and> rows_with_id ''e-1'' (fst (process_specific_events
         (store_of [processed_pump_event, cancel_event]) [''e-1'', ''e-2''] False)) =
       [processed_pump_event]"
proof -
  let ?W = "store_of [processed_pump_event, cancel_event]"
  have rows: "rows_with_id ''e-1'' ?W = [processed_pump_event]"
    by (simp add: rows_with_id_def processed_pump_event_def pump_event_def cancel_event_def)
  have marked: "is_processed processed_pump_event"
    by (simp add: processed_pump_event_def)
  have load: "snd (get_event_by_id ?W ''e-1'') = Inr processed_pump_event"
    by (simp add: get_event_by_id_result request_ok_store_of rows)
  from process_specific_events_skips
         [of ?W "''e-1''" processed_pump_event "[]" "[]" 0 0 processed_pump_event "[]"
             "[''e-1'', ''e-2'']"]
       rows marked load
  show ?thesis by simp
qed

text \<open>
  C10: for every id list, the \<open>total_events\<close> of the result of
  \<open>process_specific_events\<close> is the length of the requested list, while \<open>successful\<close>
  and \<open>failed\<close> add up to the number of results, which is at most that length.  A
  skipped event is counted in the total only: requesting the processed
  \<open>product.created\<close> event and a pending \<open>order.cancelled\<close> event without
  \<open>force_reprocess\<close> gives a total of 2 with one result, one success and no failure.
\<close>

theorem process_specific_events_total:
  "b_total_events (snd (process_specific_events w ids force)) = int (length ids)
   \<and> successful (snd (process_specific_events w ids force))
       + failed (snd (process_specific_events w ids force)) =
       int (length (results (snd (process_specific_events w ids force))))
   \<and> length (results (snd (process_specific_events w ids force))) \<le> length ids
   \<and> b_total_events (snd (process_specific_events
        (store_of [processed_pump_event, cancel_event]) [''e-1'', ''e-2''] False)) = 2
   \<and> map r_event_id (results (snd (process_specific_events
        (store_of [processed_pump_event, cancel_event]) [''e-1'', ''e-2''] False))) = [''e-2'']
   \<and> successful (snd (process_specific_events
        (store_of [processed_pump_event, cancel_event]) [''e-1'', ''e-2''] False)) = 1
   \<and> failed (snd (process_specific_events
        (store_of [processed_pump_event, cancel_event]) [''e-1'', ''e-2''] False)) = 0"
proof -
  obtain w2 rs s f where run:
    "process_ids force (snd (time_time w)) ids [] 0 0 = (w2, rs, s, f)"
    by (metis prod_cases4)
  have "int (length (filter success rs)) + int (length (filter (\<lambda>r. \<not> success r) rs)) =
          int (length rs)"
    using sum_length_filter_compl [of success rs] by linarith
  with process_ids_counts [OF run]
  have "s + f = int (length rs)" "length rs \<le> length ids"
    by auto
  then have general:
    "b_total_events (snd (process_specific_events w ids force)) = int (length ids)
     \<and> successful (snd (process_specific_events w ids force))
         + failed (snd (process_specific_events w ids force)) =
         int (length (results (snd (process_specific_events w ids force))))
     \<and> length (results (snd (process_specific_events w ids force))) \<le> length ids"
    using run by (simp add: process_specific_events_fields)
  have example:
    "b_total_events (snd (process_specific_events
        (store_of [processed_pump_event, cancel_event]) [''e-1'', ''e-2''] False)) = 2
     \<and> map r_event_id (results (snd (process_specific_events
        (store_of [processed_pump_event, cancel_event]) [''e-1'', ''e-2''] False))) = [''e-2'']
     \<and> successful (snd (process_specific_events
        (store_of [processed_pump_event, cancel_event]) [''e-1'', ''e-2''] False)) = 1
     \<and> failed (snd (process_specific_events
        (store_of [processed_pump_event, cancel_event]) [''e-1'', ''e-2''] False)) = 0"
    by code_simp
  from general example show ?thesis by blast
qed

section \<open>Properties of repeated batch runs\<close>

lemma set_update_rows:
  "row' \<in> set (update_rows i g rows) \<Longrightarrow>
     (\<exists>row \<in> set rows. row' = g row) \<or> (row' \<in> set rows \<and> ev_id row' \<noteq> i)"
  by (auto simp: update_rows_def split: if_splits)

lemma process_each_all_handled:
  assumes "process_each w evs rs s f = (w', rs', s', f')"
    and "faults w = []"
    and "\<forall>e \<in> set evs. \<exists>ops. run_handler e = Some (Inr ops)"
  shows "faults w' = []
         \<and> (\<forall>row' \<in> set (events w').
               is_processed row' \<or> (row' \<in> set (events w) \<and> ev_id row' \<notin> ev_id ` set evs))"
  using assms
proof (induction evs arbitrary: w rs s f)
  case Nil
  then show ?case by simp
next
  case (Cons e evs)
  let ?w1 = "fst (process_event w e)" and ?r = "snd (process_event w e)"
  from Cons.prems(3) obtain ops where ops: "run_handler e = Some (Inr ops)" by auto
  then obtain h where h: "getattr_handler (handler_name e) = Some h" "h e = Inr ops"
    by (auto simp: run_handler_cases)
  have ok: "request_ok w" using Cons.prems(2) by (rule request_ok_no_faults)
  have ev1: "events ?w1 = update_rows (ev_id e) (mark_processed_row (reading 1 w)) (events w)"
    using process_event_handled(2) [OF h, of w] ok by simp
  have f1: "faults ?w1 = []"
    using Cons.prems(2) by (rule process_event_faults_nil)
  have "process_each ?w1 evs (rs @ [?r]) (if success ?r then s + 1 else s)
          (if success ?r then f else f + 1) = (w', rs', s', f')"
    using Cons.prems(1) by (auto simp: case_prod_beta split: if_splits)
  from Cons.IH [OF this f1] Cons.prems(3)
  have IH: "faults w' = []"
    "\<forall>row' \<in> set (events w').
        is_processed row' \<or> (row' \<in> set (events ?w1) \<and> ev_id row' \<notin> ev_id ` set evs)"
    by auto
  have "is_processed row' \<or> (row' \<in> set (events w) \<and> ev_id row' \<notin> ev_id ` set (e # evs))"
    if "row' \<in> set (events w')" for row'
  proof (cases "is_processed row'")
    case True
    then show ?thesis by simp
  next
    case False
    with IH(2) that have in1: "row' \<in> set (events ?w1)" and notin: "ev_id row' \<notin> ev_id ` set evs"
      by auto
    from in1 ev1 set_update_rows [of row' "ev_id e" "mark_processed_row (reading 1 w)" "events w"]
    have "(\<exists>row \<in> set (events w). row' = mark_processed_row (reading 1 w) row)
          \<or> (row' \<in> set (events w) \<and> ev_id row' \<noteq> ev_id e)"
      by simp
    with False have "row' \<in> set (events w) \<and> ev_id row' \<noteq> ev_id e"
      by (auto simp: mark_processed_row_def)
    with notin show ?thesis by simp
  qed
  with IH(1) show ?case by blast
qed

lemma pending_page_all:
  "length (pending w) \<le> limit \<Longrightarrow> set (pending_page w limit) = set (pending w)"
  by (simp add: pending_page_def pending_def)

lemma pending_page_pending_nil: "pending w = [] \<Longrightarrow> pending_page w limit = []"
  by (simp add: pending_page_def pending_def)

lemma process_pending_events_nothing:
  assumes "request_ok w" and "pending_page w limit = []"
  shows "snd (process_pending_events w limit) =
           Inr \<lparr>b_total_events = 0, successful = 0, failed = 0, b_processing_time_ms = 0,
                results = []\<rparr>"
    and "events (fst (process_pending_events w limit)) = events w"
    and "dispatched (fst (process_pending_events w limit)) = dispatched w"
proof -
  let ?w1 = "snd (time_time w)"
  from assms(1) have "request_ok ?w1" by simp
  from get_unprocessed_events_result(1) [OF this, of limit] assms(2)
  have fetch: "snd (get_unprocessed_events ?w1 limit) = Inr []" by simp
  then show "snd (process_pending_events w limit) =
           Inr \<lparr>b_total_events = 0, successful = 0, failed = 0, b_processing_time_ms = 0,
                results = []\<rparr>"
    and "events (fst (process_pending_events w limit)) = events w"
    and "dispatched (fst (process_pending_events w limit)) = dispatched w"
    by (simp_all add: process_pending_events_def case_prod_beta)
qed

lemma process_pending_events_clears:
  assumes "faults w = []" and "length (pending w) \<le> limit"
    and "\<forall>e \<in> set (pending w). \<exists>ops. run_handler e = Some (Inr ops)"
  shows "faults (fst (process_pending_events w limit)) = []"
    and "pending (fst (process_pending_events w limit)) = []"
proof -
  let ?w1 = "snd (time_time w)"
  let ?w2 = "fst (get_unprocessed_events ?w1 limit)"
  let ?evs = "pending_page w limit"
  have ok: "request_ok ?w1" using assms(1) by (simp add: request_ok_no_faults)
  from get_unprocessed_events_result(1) [OF this, of limit]
  have fetch: "snd (get_unprocessed_events ?w1 limit) = Inr ?evs" by simp
  have page: "set ?evs = set (pending w)" using assms(2) by (rule pending_page_all)
  have w2: "faults ?w2 = []" "events ?w2 = events w" using assms(1) by simp_all
  have both: "faults (fst (process_pending_events w limit)) = []
              \<and> pending (fst (process_pending_events w limit)) = []"
  proof (cases "?evs = []")
    case True
    with page have "pending w = []" by simp
    with True fetch w2 show ?thesis
      by (simp add: process_pending_events_def case_prod_beta pending_def)
  next
    case False
    obtain w3 rs s f where loop: "process_each ?w2 ?evs [] 0 0 = (w3, rs, s, f)"
      by (metis prod_cases4)
    have "\<forall>e \<in> set ?evs. \<exists>ops. run_handler e = Some (Inr ops)"
      using assms(3) page by simp
    from process_each_all_handled [OF loop w2(1) this]
    have w3: "faults w3 = []"
      "\<forall>row' \<in> set (events w3).
          is_processed row' \<or> (row' \<in> set (events w) \<and> ev_id row' \<notin> ev_id ` set ?evs)"
      using w2(2) by auto
    have "is_processed row'" if "row' \<in> set (events w3)" for row'
    proof (rule ccontr)
      assume np: "\<not> is_processed row'"
      with w3(2) that have "row' \<in> set (events w)" "ev_id row' \<notin> ev_id ` set ?evs" by auto
      moreover from this(1) np have "row' \<in> set (pending w)" by (simp add: pending_def)
      ultimately show False using page by auto
    qed
    then have "filter (\<lambda>row. \<not> is_processed row) (events w3) = []"
      by (simp add: filter_empty_conv)
    with False fetch loop w3(1) show ?thesis
      by (simp add: process_pending_events_def case_prod_beta pending_def)
  qed
  then show "faults (fst (process_pending_events w limit)) = []"
    and "pending (fst (process_pending_events w limit)) = []"
    by simp_all
qed

text \<open>
  C7, as the specification states it, fails: an event without a handler stays pending,
  so a second run with no new event fetches it again.  Here the store holds the
  \<open>widget.sparkled\<close> event alone and the second run has a total of 1.
\<close>

theorem second_run_total_counterexample:
  "\<not> isl (snd (process_pending_events
               (fst (process_pending_events (store_of [sparkle_event]) 100)) 100))
   \<and> b_total_events (projr (snd (process_pending_events
               (fst (process_pending_events (store_of [sparkle_event]) 100)) 100))) = 1"
  by code_simp

text \<open>
  C7 (amended): when the fetch of unprocessed events yields no event,
  \<open>process_pending_events\<close> returns the zero-valued result at once, without entering
  \<open>process_event\<close> and without changing the stored rows.  Running it twice with no new
  event in between gives a second result with a total of 0 provided that, in the first
  run, the limit covered all pending events, the handler of every pending event returned
  normally, and no datastore request failed.
\<close>

theorem second_run_total_zero:
  "(request_ok w \<and> pending_page w limit = [] \<longrightarrow>
      snd (process_pending_events w limit) =
        Inr \<lparr>b_total_events = 0, successful = 0, failed = 0, b_processing_time_ms = 0,
             results = []\<rparr>
      \<and> events (fst (process_pending_events w limit)) = events w
      \<and> dispatched (fst (process_pending_events w limit)) = dispatched w)
   \<and> (faults w1 = [] \<and> length (pending w1) \<le> limit1
        \<and> (\<forall>e \<in> set (pending w1). \<exists>ops. run_handler e = Some (Inr ops)) \<longrightarrow>
        snd (process_pending_events (fst (process_pending_events w1 limit1)) limit2) =
          Inr \<lparr>b_total_events = 0, successful = 0, failed = 0, b_processing_time_ms = 0,
               results = []\<rparr>)"
proof -
  have first: "snd (process_pending_events w limit) =
        Inr \<lparr>b_total_events = 0, successful = 0, failed = 0, b_processing_time_ms = 0,
             results = []\<rparr>
      \<and> events (fst (process_pending_events w limit)) = events w
      \<and> dispatched (fst (process_pending_events w limit)) = dispatched w"
    if "request_ok w \<and> pending_page w limit = []"
    using that by (simp add: process_pending_events_nothing)
  have second: "snd (process_pending_events (fst (process_pending_events w1 limit1)) limit2) =
          Inr \<lparr>b_total_events = 0, successful = 0, failed = 0, b_processing_time_ms = 0,
               results = []\<rparr>"
    if a: "faults w1 = [] \<and> length (pending w1) \<le> limit1
        \<and> (\<forall>e \<in> set (pending w1). \<exists>ops. run_handler e = Some (Inr ops))"
  proof -
    let ?w' = "fst (process_pending_events w1 limit1)"
    from a process_pending_events_clears [of w1 limit1]
    have "faults ?w' = []" "pending ?w' = []" by auto
    then have "request_ok ?w'" "pending_page ?w' limit2 = []"
      by (simp_all add: request_ok_no_faults pending_page_pending_nil)
    then show ?thesis by (rule process_pending_events_nothing(1))
  qed
  from first second show ?thesis by blast
qed

text \<open>Witness for C7: a store with nothing pending, and a store with two pending
  events whose handlers return.\<close>

theorem second_run_total_zero_witness:
  "request_ok (store_of [processed_pump_event])
   \<and> pending_page (store_of [processed_pump_event]) 100 = []
   \<and> snd (process_pending_events (store_of [processed_pump_event]) 100) =
        Inr \<lparr>b_total_events = 0, successful = 0, failed = 0, b_processing_time_ms = 0,
             results = []\<rparr>
   \<and> dispatched (fst (process_pending_events (store_of [processed_pump_event]) 100)) = []
   \<and> faults (store_of [pump_event, cancel_event]) = []
   \<and> pending (store_of [pump_event, cancel_event]) = [pump_event, cancel_event]
   \<and> run_handler pump_event = Some (Inr [''Logged product creation: PUMP-001''])
   \<and> run_handler cancel_event = Some (Inr [''Logged order cancellation: o-1''])
   \<and> snd (process_pending_events
            (fst (process_pending_events (store_of [pump_event, cancel_event]) 2)) 100) =
        Inr \<lparr>b_total_events = 0, successful = 0, failed = 0, b_processing_time_ms = 0,
             results = []\<rparr>"
proof -
  have page: "pending_page (store_of [processed_pump_event]) 100 = []"
    by (simp add: pending_page_store_of processed_pump_event_def)
  have pend: "pending (store_of [pump_event, cancel_event]) = [pump_event, cancel_event]"
    by (simp add: pending_def pump_event_def cancel_event_def)
  from second_run_total_zero
         [of "store_of [processed_pump_event]" 100 "store_of [pump_event, cancel_event]" 2 100]
       page pend request_ok_store_of [of "[processed_pump_event]"]
       run_handler_pump run_handler_cancel
  show ?thesis by simp
qed

section \<open>The statistics of the Database Manager\<close>

text \<open>
  C8: the claim is that \<open>get_stats\<close> reports, among the other counts, the number of
  failed events.  The code sets \<open>events_failed\<close> to the constant 0.  After a batch run
  over a store holding one \<open>product.updated\<close> event whose handler raises, the batch
  result counts one failure and the stored event carries its \<open>processing_error\<close>, yet
  \<open>get_stats\<close> on that store reports \<open>events_failed = 0\<close>; the other fields are as
  the claim says (nothing processed, one pending, rate 0, one event of the type, no
  last-processed timestamp).
\<close>

theorem get_stats_events_failed_zero:
  "failed (projr (snd (process_pending_events (store_of [bad_update_event]) 100))) = 1
   \<and> map (\<lambda>row. (is_processed row, processing_error row))
         (events (fst (process_pending_events (store_of [bad_update_event]) 100))) =
       [(False, Some ''object of type 'int' has no len()'')]
   \<and> snd (get_stats (fst (process_pending_events (store_of [bad_update_event]) 100))) =
       Inr \<lparr>total_events_processed = 0, events_pending = 1, events_failed = 0,
            success_rate = 0, average_processing_time_ms = 0, last_processed_at = None,
            event_type_breakdown = [(''product.updated'', 1)]\<rparr>"
  by code_simp

end
